theory Spec2Isabelle
  imports Complex_Main "HOL-Library.Word"
begin

section \<open>Python values used by the audio services\<close>

text \<open>
  A Python \<open>str\<close> is a sequence of Unicode code points; transcripts are kept as lists of
  code points so that \<open>str.strip\<close> can be modelled with Python's own whitespace set.
  Session identifiers and messages, whose characters never matter, are plain strings.
\<close>

type_synonym pystr = "nat list"
type_synonym byte = "8 word"
type_synonym sample = real

text \<open>\<open>str.isspace\<close> on one code point (CPython's \<open>_PyUnicode_IsWhitespace\<close>).\<close>

definition py_isspace :: "nat \<Rightarrow> bool" where
  "py_isspace c \<longleftrightarrow>
     (9 \<le> c \<and> c \<le> 13) \<or> (28 \<le> c \<and> c \<le> 32) \<or> c = 133 \<or> c = 160 \<or> c = 5760 \<or>
     (8192 \<le> c \<and> c \<le> 8202) \<or> c = 8232 \<or> c = 8233 \<or> c = 8239 \<or> c = 8287 \<or> c = 12288"

text \<open>\<open>s.strip()\<close>: drop the leading and the trailing whitespace.\<close>

definition strip :: "pystr \<Rightarrow> pystr" where
  "strip s = rev (dropWhile py_isspace (rev (dropWhile py_isspace s)))"

text \<open>\<open>sep.join(parts)\<close>.\<close>

fun join :: "pystr \<Rightarrow> pystr list \<Rightarrow> pystr" where
  "join sep [] = []"
| "join sep [t] = t"
| "join sep (t # ts) = t @ sep @ join sep ts"

text \<open>The literal \<open>" "\<close>.\<close>

definition SP :: pystr where
  "SP = [32]"

text \<open>A string literal of the source as code points.\<close>

definition str :: "string \<Rightarrow> pystr" where
  "str s = map of_char s"

section \<open>AudioBuffer (realtime\_audio\_service.py)\<close>

text \<open>
  \<open>int(x)\<close> on a float truncates towards zero. Durations are floats in the source; they
  are reals here, so the rounding of the float product \<open>sample_rate * duration\<close> is not
  modelled. The products the service itself forms, \<open>16000 * 30.0\<close> and \<open>16000 * 3.0\<close>, are
  whole numbers that floats represent exactly, and so are those of the buffer of 2 samples
  per second and 2.0 seconds used below; for other durations the statements about
  \<open>read_last_seconds\<close> are statements about the exact product.
\<close>

definition py_int :: "real \<Rightarrow> int" where
  "py_int x = (if x < 0 then - \<lfloor>- x\<rfloor> else \<lfloor>x\<rfloor>)"

record AudioBuffer =
  sample_rate :: nat
  buffer_size :: nat
  buffer :: "sample list"
  write_index :: nat
  is_full :: bool

text \<open>
  \<open>AudioBuffer.__init__\<close>. For a negative product \<open>np.zeros\<close> refuses the size and the
  constructor raises; the value given here for that case (an empty buffer) stands for no
  buffer of the program. The service builds its buffers with 16000 and 30.0.
\<close>

definition AudioBuffer_init :: "nat \<Rightarrow> real \<Rightarrow> AudioBuffer" where
  "AudioBuffer_init rate buffer_duration =
     (let size = nat (py_int (real rate * buffer_duration)) in
      \<lparr>sample_rate = rate, buffer_size = size, buffer = replicate size 0,
       write_index = 0, is_full = False\<rparr>)"

text \<open>
  \<open>AudioBuffer.write\<close>. The slice \<open>audio_data[-buffer_size:]\<close> is the whole of
  \<open>audio_data\<close> when \<open>buffer_size\<close> is 0. A slice assignment \<open>b[i:j] = d\<close> with
  \<open>len(d) = j - i\<close> and \<open>j \<le> len(b)\<close> is \<open>take i b @ d @ drop j b\<close>.
\<close>

definition AudioBuffer_write :: "AudioBuffer \<Rightarrow> sample list \<Rightarrow> AudioBuffer" where
  "AudioBuffer_write b audio_data =
     (let data_length = length audio_data in
      if data_length \<ge> buffer_size b then
        b\<lparr>buffer := (if buffer_size b = 0 then audio_data
                      else drop (data_length - buffer_size b) audio_data),
          write_index := 0,
          is_full := True\<rparr>
      else
        let end_index = write_index b + data_length in
        if end_index \<le> buffer_size b then
          b\<lparr>buffer := take (write_index b) (buffer b) @ audio_data @ drop end_index (buffer b),
            write_index := end_index mod buffer_size b\<rparr>
        else
          let first_chunk_size = buffer_size b - write_index b;
              buffer1 = take (write_index b) (buffer b) @ take first_chunk_size audio_data;
              buffer2 = drop first_chunk_size audio_data
                          @ drop (data_length - first_chunk_size) buffer1
          in b\<lparr>buffer := buffer2,
               write_index := data_length - first_chunk_size,
               is_full := True\<rparr>)"

text \<open>
  \<open>AudioBuffer.read_last_seconds\<close>. With a negative \<open>samples\<close> the second test holds and
  the slice \<open>buffer[write_index - samples : write_index]\<close> starts behind its end: empty.
\<close>

definition AudioBuffer_read_last_seconds :: "AudioBuffer \<Rightarrow> real \<Rightarrow> sample list" where
  "AudioBuffer_read_last_seconds b duration =
     (let samples0 = py_int (real (sample_rate b) * duration);
          samples = min samples0 (int (buffer_size b)) in
      if \<not> is_full b \<and> int (write_index b) < samples then
        take (write_index b) (buffer b)
      else if int (write_index b) \<ge> samples then
        (if samples < 0 then []
         else drop (write_index b - nat samples) (take (write_index b) (buffer b)))
      else
        let first_part = drop (buffer_size b - (nat samples - write_index b)) (buffer b);
            second_part = take (write_index b) (buffer b)
        in first_part @ second_part)"

text \<open>A sequence of \<open>write\<close> calls, oldest first.\<close>

fun writes :: "AudioBuffer \<Rightarrow> sample list list \<Rightarrow> AudioBuffer" where
  "writes b [] = b"
| "writes b (d # ds) = writes (AudioBuffer_write b d) ds"

section \<open>The transcription collaborator\<close>

text \<open>
  A raised Python exception, with its \<open>str(e)\<close>. The transcription call is a function
  from what it is sent to either an exception or a transcript object; \<open>confidence\<close> is
  the attribute read with \<open>getattr(transcript, 'confidence', 0.9)\<close>, absent when \<open>None\<close>.
\<close>

datatype exn = Exception string

record transcript =
  transcript_text :: pystr
  transcript_confidence :: "real option"

type_synonym 'a whisper = "'a \<Rightarrow> exn + transcript"

section \<open>BasicAudioSession (basic\_realtime\_audio.py)\<close>

text \<open>
  Clock readings (\<open>time.time()\<close>, \<open>datetime.now()\<close>) are an argument \<open>now\<close> of each
  operation; a timestamp is the reading itself, its ISO formatting is not modelled.
\<close>

record segment =
  seg_text :: pystr
  seg_timestamp :: real
  seg_confidence :: real
  seg_session_id :: string

record BasicAudioSession =
  session_id :: string
  created_at :: real
  is_recording :: bool
  recording_start_time :: "real option"
  recording_end_time :: "real option"
  transcription_segments :: "segment list"
  full_transcription :: pystr
  transcription_queue :: "segment list"
  audio_buffer :: "byte list"
  last_transcription_time :: "real option"

definition BasicAudioSession_init :: "string \<Rightarrow> real \<Rightarrow> BasicAudioSession" where
  "BasicAudioSession_init sid now =
     \<lparr>session_id = sid, created_at = now, is_recording = False,
      recording_start_time = None, recording_end_time = None,
      transcription_segments = [], full_transcription = [],
      transcription_queue = [], audio_buffer = [], last_transcription_time = None\<rparr>"

definition BasicAudioSession_start_recording :: "BasicAudioSession \<Rightarrow> real \<Rightarrow> BasicAudioSession" where
  "BasicAudioSession_start_recording s now =
     s\<lparr>is_recording := True, recording_start_time := Some now\<rparr>"

definition BasicAudioSession_stop_recording :: "BasicAudioSession \<Rightarrow> real \<Rightarrow> BasicAudioSession" where
  "BasicAudioSession_stop_recording s now =
     s\<lparr>is_recording := False, recording_end_time := Some now\<rparr>"

text \<open>\<open>Queue.put\<close> appends at the back; \<open>get_nowait\<close> takes from the front.\<close>

definition add_transcription_segment ::
  "BasicAudioSession \<Rightarrow> pystr \<Rightarrow> real \<Rightarrow> real \<Rightarrow> BasicAudioSession" where
  "add_transcription_segment s txt confidence now =
     (let segment = \<lparr>seg_text = strip txt, seg_timestamp = now,
                     seg_confidence = confidence, seg_session_id = session_id s\<rparr>
      in s\<lparr>transcription_segments := transcription_segments s @ [segment],
           full_transcription := full_transcription s @ SP @ strip txt,
           transcription_queue := transcription_queue s @ [segment],
           last_transcription_time := Some now\<rparr>)"

definition add_audio_data :: "BasicAudioSession \<Rightarrow> byte list \<Rightarrow> BasicAudioSession" where
  "add_audio_data s audio_data = s\<lparr>audio_buffer := audio_buffer s @ audio_data\<rparr>"

definition get_audio_buffer_size :: "BasicAudioSession \<Rightarrow> nat" where
  "get_audio_buffer_size s = length (audio_buffer s)"

definition clear_audio_buffer :: "BasicAudioSession \<Rightarrow> BasicAudioSession" where
  "clear_audio_buffer s = s\<lparr>audio_buffer := []\<rparr>"

text \<open>
  \<open>get_recording_duration\<close>. A float is falsy when it is \<open>None\<close> or \<open>0.0\<close>; so are the
  tests \<open>not self.recording_start_time\<close> and \<open>self.recording_end_time or time.time()\<close>.
\<close>

definition get_recording_duration :: "BasicAudioSession \<Rightarrow> real \<Rightarrow> real" where
  "get_recording_duration s now =
     (case recording_start_time s of
        None \<Rightarrow> 0
      | Some start_time \<Rightarrow>
          if start_time = 0 then 0
          else let end_time = (case recording_end_time s of
                                 None \<Rightarrow> now
                               | Some e \<Rightarrow> if e = 0 then now else e)
               in end_time - start_time)"

record session_status =
  st_session_id :: string
  st_is_recording :: bool
  st_created_at :: real
  st_recording_duration :: real
  st_segment_count :: nat
  st_full_transcription :: pystr
  st_audio_buffer_size :: nat
  st_last_transcription :: "real option"

definition get_status :: "BasicAudioSession \<Rightarrow> real \<Rightarrow> session_status" where
  "get_status s now =
     \<lparr>st_session_id = session_id s,
      st_is_recording = is_recording s,
      st_created_at = created_at s,
      st_recording_duration = get_recording_duration s now,
      st_segment_count = length (transcription_segments s),
      st_full_transcription = strip (full_transcription s),
      st_audio_buffer_size = length (audio_buffer s),
      st_last_transcription = last_transcription_time s\<rparr>"

section \<open>BasicRealtimeAudioService (basic\_realtime\_audio.py)\<close>

record BasicRealtimeAudioService =
  sessions :: "string \<rightharpoonup> BasicAudioSession"

definition BasicRealtimeAudioService_init :: BasicRealtimeAudioService where
  "BasicRealtimeAudioService_init = \<lparr>sessions = Map.empty\<rparr>"

text \<open>
  \<open>create_session\<close>; \<open>uuid\<close> is the value \<open>str(uuid.uuid4())\<close> would draw. An existing
  entry under the same id is overwritten.
\<close>

definition create_session ::
  "BasicRealtimeAudioService \<Rightarrow> string option \<Rightarrow> string \<Rightarrow> real
     \<Rightarrow> BasicRealtimeAudioService \<times> string" where
  "create_session svc session_id_arg uuid now =
     (let sid = (case session_id_arg of None \<Rightarrow> uuid | Some i \<Rightarrow> i)
      in (svc\<lparr>sessions := (sessions svc)(sid \<mapsto> BasicAudioSession_init sid now)\<rparr>, sid))"

definition start_recording ::
  "BasicRealtimeAudioService \<Rightarrow> string \<Rightarrow> real \<Rightarrow> BasicRealtimeAudioService \<times> bool" where
  "start_recording svc sid now =
     (case sessions svc sid of
        None \<Rightarrow> (svc, False)
      | Some s \<Rightarrow>
          (svc\<lparr>sessions := (sessions svc)(sid \<mapsto> BasicAudioSession_start_recording s now)\<rparr>,
           True))"

definition stop_recording ::
  "BasicRealtimeAudioService \<Rightarrow> string \<Rightarrow> real \<Rightarrow> BasicRealtimeAudioService \<times> bool" where
  "stop_recording svc sid now =
     (case sessions svc sid of
        None \<Rightarrow> (svc, False)
      | Some s \<Rightarrow>
          (svc\<lparr>sessions := (sessions svc)(sid \<mapsto> BasicAudioSession_stop_recording s now)\<rparr>,
           True))"

subsection \<open>The WAV container\<close>

text \<open>
  \<open>n.to_bytes(length, 'little')\<close> of a non-negative \<open>n\<close>: \<open>OverflowError\<close> (here \<open>None\<close>)
  when \<open>n\<close> does not fit.
\<close>

fun le_bytes :: "nat \<Rightarrow> nat \<Rightarrow> byte list" where
  "le_bytes 0 n = []"
| "le_bytes (Suc k) n = of_nat (n mod 256) # le_bytes k (n div 256)"

definition to_bytes :: "nat \<Rightarrow> nat \<Rightarrow> byte list option" where
  "to_bytes n len = (if n < 256 ^ len then Some (le_bytes len n) else None)"

text \<open>A bytes literal such as \<open>b'RIFF'\<close>.\<close>

definition bytes :: "string \<Rightarrow> byte list" where
  "bytes s = map of_char s"

text \<open>
  The \<open>temp_file.write(...)\<close> calls of one \<open>with\<close> block, in order: the content written,
  or \<open>None\<close> as soon as the argument of one of them raises.
\<close>

fun file_writes :: "byte list option list \<Rightarrow> byte list option" where
  "file_writes [] = Some []"
| "file_writes (None # ws) = None"
| "file_writes (Some b # ws) = map_option ((@) b) (file_writes ws)"

text \<open>
  \<open>_create_temp_wav_from_buffer\<close>. The result stands for the temporary file: its content,
  or \<open>None\<close> where the source returns \<open>None\<close> (any exception inside the \<open>with\<close> block:
  the file cannot be created or written, \<open>tmp_ok\<close> false, or a \<open>to_bytes\<close> overflow).
\<close>

definition create_temp_wav_from_buffer :: "bool \<Rightarrow> byte list \<Rightarrow> byte list option" where
  "create_temp_wav_from_buffer tmp_ok buf =
     (if \<not> tmp_ok then None
      else
        let rate = 16000; bits_per_sample = 16; channels = 1 in
        file_writes
          [Some (bytes ''RIFF''),
           to_bytes (length buf + 36) 4,
           Some (bytes ''WAVE''),
           Some (bytes ''fmt ''),
           to_bytes 16 4,
           to_bytes 1 2,
           to_bytes channels 2,
           to_bytes rate 4,
           to_bytes (rate * channels * bits_per_sample div 8) 4,
           to_bytes (channels * bits_per_sample div 8) 2,
           to_bytes bits_per_sample 2,
           Some (bytes ''data''),
           to_bytes (length buf) 4,
           Some buf])"

subsection \<open>Transcription and ingestion\<close>

datatype transcribe_result =
    Transcribe_error string
  | Transcribe_success pystr real real
  | Transcribe_no_speech

text \<open>
  \<open>transcribe_audio_file\<close>. The path argument is given by what \<open>open(path, "rb")\<close> makes of
  it: the file's content, or the exception raised. Every exception of the \<open>try\<close> block,
  the collaborator's included, becomes the \<open>{"error": str(e)}\<close> result.
\<close>

definition transcribe_audio_file ::
  "BasicRealtimeAudioService \<Rightarrow> string \<Rightarrow> exn + byte list \<Rightarrow> byte list whisper \<Rightarrow> real
     \<Rightarrow> BasicRealtimeAudioService \<times> transcribe_result" where
  "transcribe_audio_file svc sid audio_file whisper now =
     (case sessions svc sid of
        None \<Rightarrow> (svc, Transcribe_error ''Session not found'')
      | Some session \<Rightarrow>
          (case audio_file of
             Inl (Exception msg) \<Rightarrow> (svc, Transcribe_error msg)
           | Inr content \<Rightarrow>
               (case whisper content of
                  Inl (Exception msg) \<Rightarrow> (svc, Transcribe_error msg)
                | Inr t \<Rightarrow>
                    if strip (transcript_text t) \<noteq> [] then
                      let confidence = (case transcript_confidence t of None \<Rightarrow> 0.9 | Some c \<Rightarrow> c);
                          session' = add_transcription_segment session
                                       (strip (transcript_text t)) confidence now
                      in (svc\<lparr>sessions := (sessions svc)(sid \<mapsto> session')\<rparr>,
                          Transcribe_success (strip (transcript_text t)) confidence now)
                    else (svc, Transcribe_no_speech))))"

datatype process_result =
    Process_error string
  | Processed transcribe_result
  | Buffering nat real

text \<open>
  \<open>process_audio_data\<close>. Nothing inside its \<open>try\<close> block raises (the helpers catch their
  own exceptions), so the \<open>"Processing failed"\<close> branch has no counterpart here. When no
  temporary file could be made the function falls through to the \<open>buffering\<close> answer and
  the buffer is kept.
\<close>

definition process_audio_data ::
  "BasicRealtimeAudioService \<Rightarrow> string \<Rightarrow> byte list \<Rightarrow> bool \<Rightarrow> byte list whisper \<Rightarrow> real
     \<Rightarrow> BasicRealtimeAudioService \<times> process_result" where
  "process_audio_data svc sid audio_data tmp_ok whisper now =
     (case sessions svc sid of
        None \<Rightarrow> (svc, Process_error ''Session not found'')
      | Some session \<Rightarrow>
          let session1 = add_audio_data session audio_data;
              svc1 = svc\<lparr>sessions := (sessions svc)(sid \<mapsto> session1)\<rparr>;
              buffer_size = get_audio_buffer_size session1;
              estimated_duration = real buffer_size / (16000 * 2)
          in if estimated_duration \<ge> 3.0 then
               (case create_temp_wav_from_buffer tmp_ok (audio_buffer session1) of
                  Some temp \<Rightarrow>
                    let (svc2, transcription_result) =
                          transcribe_audio_file svc1 sid (Inr temp) whisper now;
                        svc3 = (case sessions svc2 sid of
                                  None \<Rightarrow> svc2
                                | Some session2 \<Rightarrow>
                                    svc2\<lparr>sessions := (sessions svc2)(sid \<mapsto> clear_audio_buffer session2)\<rparr>)
                    in (svc3, Processed transcription_result)
                | None \<Rightarrow> (svc1, Buffering buffer_size estimated_duration))
             else (svc1, Buffering buffer_size estimated_duration))"

definition get_session_status ::
  "BasicRealtimeAudioService \<Rightarrow> string \<Rightarrow> real \<Rightarrow> string + session_status" where
  "get_session_status svc sid now =
     (case sessions svc sid of
        None \<Rightarrow> Inl ''Session not found''
      | Some s \<Rightarrow> Inr (get_status s now))"

text \<open>The loop of \<open>get_live_transcription\<close> that empties the queue into \<open>new_segments\<close>.\<close>

fun drain_queue :: "segment list \<Rightarrow> segment list \<Rightarrow> segment list \<times> segment list" where
  "drain_queue [] new_segments = ([], new_segments)"
| "drain_queue (segment # queue) new_segments = drain_queue queue (new_segments @ [segment])"

record live_transcription =
  lt_session_id :: string
  lt_is_recording :: bool
  lt_new_segments :: "segment list"
  lt_full_transcription :: pystr
  lt_segment_count :: nat

definition get_live_transcription ::
  "BasicRealtimeAudioService \<Rightarrow> string
     \<Rightarrow> BasicRealtimeAudioService \<times> (string + live_transcription)" where
  "get_live_transcription svc sid =
     (case sessions svc sid of
        None \<Rightarrow> (svc, Inl ''Session not found'')
      | Some session \<Rightarrow>
          let (queue, new_segments) = drain_queue (transcription_queue session) [];
              session' = session\<lparr>transcription_queue := queue\<rparr>
          in (svc\<lparr>sessions := (sessions svc)(sid \<mapsto> session')\<rparr>,
              Inr \<lparr>lt_session_id = sid,
                   lt_is_recording = is_recording session',
                   lt_new_segments = new_segments,
                   lt_full_transcription = strip (full_transcription session'),
                   lt_segment_count = length (transcription_segments session')\<rparr>))"

definition get_final_transcription :: "BasicRealtimeAudioService \<Rightarrow> string \<Rightarrow> pystr option" where
  "get_final_transcription svc sid =
     (case sessions svc sid of
        None \<Rightarrow> None
      | Some s \<Rightarrow> Some (strip (full_transcription s)))"

definition cleanup_session ::
  "BasicRealtimeAudioService \<Rightarrow> string \<Rightarrow> BasicRealtimeAudioService \<times> bool" where
  "cleanup_session svc sid =
     (if sid \<in> dom (sessions svc)
      then (svc\<lparr>sessions := (sessions svc)(sid := None)\<rparr>, True)
      else (svc, False))"

section \<open>BasicRealtimeTranscriptionManager and the DELETE endpoint\<close>

record BasicRealtimeTranscriptionManager =
  audio_service :: BasicRealtimeAudioService
  active_sessions :: "string set"

definition BasicRealtimeTranscriptionManager_init :: BasicRealtimeTranscriptionManager where
  "BasicRealtimeTranscriptionManager_init =
     \<lparr>audio_service = BasicRealtimeAudioService_init, active_sessions = {}\<rparr>"

definition manager_create_session ::
  "BasicRealtimeTranscriptionManager \<Rightarrow> string \<Rightarrow> real
     \<Rightarrow> BasicRealtimeTranscriptionManager \<times> string" where
  "manager_create_session m uuid now =
     (let (svc, sid) = create_session (audio_service m) None uuid now
      in (m\<lparr>audio_service := svc, active_sessions := insert sid (active_sessions m)\<rparr>, sid))"

datatype recording_response =
    Recording_started string real
  | Recording_stopped string "pystr option" real
  | Recording_failed string

definition manager_start_recording ::
  "BasicRealtimeTranscriptionManager \<Rightarrow> string \<Rightarrow> real
     \<Rightarrow> BasicRealtimeTranscriptionManager \<times> recording_response" where
  "manager_start_recording m sid now =
     (let (svc, success) = start_recording (audio_service m) sid now
      in if success then (m\<lparr>audio_service := svc\<rparr>, Recording_started sid now)
         else (m\<lparr>audio_service := svc\<rparr>, Recording_failed ''Failed to start recording''))"

definition manager_stop_recording ::
  "BasicRealtimeTranscriptionManager \<Rightarrow> string \<Rightarrow> real
     \<Rightarrow> BasicRealtimeTranscriptionManager \<times> recording_response" where
  "manager_stop_recording m sid now =
     (let (svc, success) = stop_recording (audio_service m) sid now
      in if success then
           (let final_transcription = get_final_transcription svc sid
            in (m\<lparr>audio_service := svc\<rparr>, Recording_stopped sid final_transcription now))
         else (m\<lparr>audio_service := svc\<rparr>, Recording_failed ''Failed to stop recording''))"

definition manager_cleanup_session ::
  "BasicRealtimeTranscriptionManager \<Rightarrow> string \<Rightarrow> BasicRealtimeTranscriptionManager \<times> bool" where
  "manager_cleanup_session m sid =
     (let active = (if sid \<in> active_sessions m then active_sessions m - {sid}
                    else active_sessions m);
          (svc, success) = cleanup_session (audio_service m) sid
      in (m\<lparr>audio_service := svc, active_sessions := active\<rparr>, success))"

text \<open>
  \<open>DELETE /audio/session/{id}\<close> (\<open>cleanup_audio_session\<close> of api/main.py). The module
  global \<open>realtime_transcription_manager\<close> is \<open>None\<close> when no API key is configured; the
  handler then answers with an \<open>HTTPException\<close>, here its status code and detail.
  Nothing inside the handler's \<open>try\<close> block raises, so its \<open>except\<close> branch has no
  counterpart here.
\<close>

datatype http_exception = HTTPException nat string

datatype cleanup_status = cleaned_up | not_found

record cleanup_response =
  cr_session_id :: string
  cr_status :: cleanup_status
  cr_timestamp :: real

definition cleanup_audio_session ::
  "BasicRealtimeTranscriptionManager option \<Rightarrow> string \<Rightarrow> real
     \<Rightarrow> BasicRealtimeTranscriptionManager option \<times> (http_exception + cleanup_response)" where
  "cleanup_audio_session realtime_transcription_manager sid now =
     (case realtime_transcription_manager of
        None \<Rightarrow> (None, Inl (HTTPException 500 ''Real-time transcription service not available''))
      | Some m \<Rightarrow>
          let (m', success) = manager_cleanup_session m sid
          in (Some m',
              Inr \<lparr>cr_session_id = sid,
                   cr_status = (if success then cleaned_up else not_found),
                   cr_timestamp = now\<rparr>))"

section \<open>RealtimeAudioService (realtime\_audio\_service.py)\<close>

text \<open>
  A session is a dictionary in the source; the keys \<open>recording_start_time\<close> and
  \<open>final_transcription\<close> are absent until first set, here \<open>None\<close>.
\<close>

record rt_segment =
  rt_text :: pystr
  rt_timestamp :: real
  rt_confidence :: real
  rt_duration :: real

record rt_session =
  rt_created_at :: real
  rt_is_recording :: bool
  rt_audio_buffer :: AudioBuffer
  rt_transcription_queue :: "rt_segment list"
  rt_full_transcription :: pystr
  rt_transcription_segments :: "rt_segment list"
  rt_last_transcription_time :: real
  rt_recording_start_time :: "real option"
  rt_final_transcription :: "pystr option"

record RealtimeAudioService =
  rt_sessions :: "string \<rightharpoonup> rt_session"
  rt_sample_rate :: nat
  chunk_duration :: real
  buffer_duration :: real

definition RealtimeAudioService_init :: RealtimeAudioService where
  "RealtimeAudioService_init =
     \<lparr>rt_sessions = Map.empty, rt_sample_rate = 16000, chunk_duration = 3.0,
      buffer_duration = 30.0\<rparr>"

definition rt_create_session ::
  "RealtimeAudioService \<Rightarrow> string option \<Rightarrow> string \<Rightarrow> real \<Rightarrow> RealtimeAudioService \<times> string" where
  "rt_create_session svc session_id_arg uuid now =
     (let sid = (case session_id_arg of None \<Rightarrow> uuid | Some i \<Rightarrow> i);
          session = \<lparr>rt_created_at = now, rt_is_recording = False,
                     rt_audio_buffer = AudioBuffer_init (rt_sample_rate svc) (buffer_duration svc),
                     rt_transcription_queue = [], rt_full_transcription = [],
                     rt_transcription_segments = [], rt_last_transcription_time = 0,
                     rt_recording_start_time = None, rt_final_transcription = None\<rparr>
      in (svc\<lparr>rt_sessions := (rt_sessions svc)(sid \<mapsto> session)\<rparr>, sid))"

definition rt_start_recording ::
  "RealtimeAudioService \<Rightarrow> string \<Rightarrow> real \<Rightarrow> RealtimeAudioService \<times> bool" where
  "rt_start_recording svc sid now =
     (case rt_sessions svc sid of
        None \<Rightarrow> (svc, False)
      | Some session \<Rightarrow>
          (svc\<lparr>rt_sessions := (rt_sessions svc)
                  (sid \<mapsto> session\<lparr>rt_is_recording := True, rt_recording_start_time := Some now\<rparr>)\<rparr>,
           True))"

text \<open>
  \<open>_transcribe_audio_chunk\<close>, on the session it is about. \<open>tmp_ok\<close> says whether the
  temporary file could be written (\<open>sf.write\<close>); the collaborator is given the samples
  written to that file. Every exception is caught and only logged.
\<close>

definition transcribe_audio_chunk ::
  "RealtimeAudioService \<Rightarrow> rt_session \<Rightarrow> bool \<Rightarrow> sample list whisper \<Rightarrow> real \<Rightarrow> rt_session" where
  "transcribe_audio_chunk svc session tmp_ok whisper now =
     (let audio_data = AudioBuffer_read_last_seconds (rt_audio_buffer session) (chunk_duration svc)
      in if real (length audio_data) < real (rt_sample_rate svc) * 0.5 then session
         else if \<not> tmp_ok then session
         else
           (case whisper audio_data of
              Inl e \<Rightarrow> session
            | Inr t \<Rightarrow>
                if strip (transcript_text t) \<noteq> [] then
                  let segment = \<lparr>rt_text = strip (transcript_text t),
                                  rt_timestamp = now,
                                  rt_confidence = (case transcript_confidence t of
                                                     None \<Rightarrow> 0.9 | Some c \<Rightarrow> c),
                                  rt_duration = real (length audio_data) / real (rt_sample_rate svc)\<rparr>
                  in session\<lparr>rt_transcription_segments := rt_transcription_segments session @ [segment],
                             rt_full_transcription :=
                               rt_full_transcription session @ SP @ strip (transcript_text t),
                             rt_transcription_queue := rt_transcription_queue session @ [segment]\<rparr>
                else session))"

text \<open>
  \<open>_process_final_audio_chunk\<close>. The collaborator is asked for plain text here; its answer
  is the text of the transcript.
\<close>

definition process_final_audio_chunk ::
  "RealtimeAudioService \<Rightarrow> rt_session \<Rightarrow> bool \<Rightarrow> sample list whisper \<Rightarrow> rt_session" where
  "process_final_audio_chunk svc session tmp_ok whisper =
     (let audio_data = AudioBuffer_read_last_seconds (rt_audio_buffer session) (buffer_duration svc)
      in if real (length audio_data) < real (rt_sample_rate svc) * 0.5 then session
         else if \<not> tmp_ok then session
         else
           (case whisper audio_data of
              Inl e \<Rightarrow> session
            | Inr t \<Rightarrow>
                if strip (transcript_text t) \<noteq> [] then
                  session\<lparr>rt_final_transcription := Some (strip (transcript_text t))\<rparr>
                else session))"

definition rt_stop_recording ::
  "RealtimeAudioService \<Rightarrow> string \<Rightarrow> bool \<Rightarrow> sample list whisper
     \<Rightarrow> RealtimeAudioService \<times> bool" where
  "rt_stop_recording svc sid tmp_ok whisper =
     (case rt_sessions svc sid of
        None \<Rightarrow> (svc, False)
      | Some session \<Rightarrow>
          let session1 = session\<lparr>rt_is_recording := False\<rparr>;
              session2 = process_final_audio_chunk svc session1 tmp_ok whisper
          in (svc\<lparr>rt_sessions := (rt_sessions svc)(sid \<mapsto> session2)\<rparr>, True))"

text \<open>\<open>_get_buffer_level\<close>; the division raises when the buffer has size 0.\<close>

definition get_buffer_level :: "rt_session \<Rightarrow> exn + real" where
  "get_buffer_level session =
     (let b = rt_audio_buffer session
      in if is_full b then Inr 1
         else if buffer_size b = 0 then Inl (Exception ''division by zero'')
         else Inr (real (write_index b) / real (buffer_size b)))"

datatype chunk_result =
    Chunk_error string
  | Chunk_success real real

text \<open>
  \<open>process_audio_chunk\<close>. The bytes are given by what \<open>np.frombuffer(audio_data,
  dtype=np.float32)\<close> makes of them: the samples, or the exception it raises (a length that
  is not a multiple of 4). Mutations made before an exception stay, as in the source.
\<close>

definition process_audio_chunk ::
  "RealtimeAudioService \<Rightarrow> string \<Rightarrow> exn + sample list \<Rightarrow> bool \<Rightarrow> sample list whisper \<Rightarrow> real
     \<Rightarrow> RealtimeAudioService \<times> chunk_result" where
  "process_audio_chunk svc sid audio_array tmp_ok whisper now =
     (case rt_sessions svc sid of
        None \<Rightarrow> (svc, Chunk_error ''Session not found'')
      | Some session \<Rightarrow>
          if \<not> rt_is_recording session then (svc, Chunk_error ''Session not recording'')
          else
            (case audio_array of
               Inl (Exception msg) \<Rightarrow> (svc, Chunk_error msg)
             | Inr samples \<Rightarrow>
                 let session1 = session\<lparr>rt_audio_buffer :=
                                          AudioBuffer_write (rt_audio_buffer session) samples\<rparr>;
                     current_time = now;
                     session2 =
                       (if current_time - rt_last_transcription_time session1 \<ge> chunk_duration svc
                        then (transcribe_audio_chunk svc session1 tmp_ok whisper now)
                               \<lparr>rt_last_transcription_time := current_time\<rparr>
                        else session1);
                     svc' = svc\<lparr>rt_sessions := (rt_sessions svc)(sid \<mapsto> session2)\<rparr>
                 in (case get_buffer_level session2 of
                       Inl (Exception msg) \<Rightarrow> (svc', Chunk_error msg)
                     | Inr level \<Rightarrow> (svc', Chunk_success level current_time))))"

definition rt_get_final_transcription :: "RealtimeAudioService \<Rightarrow> string \<Rightarrow> pystr option" where
  "rt_get_final_transcription svc sid =
     (case rt_sessions svc sid of
        None \<Rightarrow> None
      | Some session \<Rightarrow>
          (case rt_final_transcription session of
             Some final \<Rightarrow> Some final
           | None \<Rightarrow> Some (strip (rt_full_transcription session))))"

text \<open>
  \<open>RealtimeTranscriptionManager.stop_recording\<close>, on the service it wraps (its set of
  active ids is not touched by a stop).
\<close>

definition rt_manager_stop_recording ::
  "RealtimeAudioService \<Rightarrow> string \<Rightarrow> bool \<Rightarrow> sample list whisper \<Rightarrow> real
     \<Rightarrow> RealtimeAudioService \<times> recording_response" where
  "rt_manager_stop_recording svc sid tmp_ok whisper now =
     (let (svc', success) = rt_stop_recording svc sid tmp_ok whisper
      in if success then (svc', Recording_stopped sid (rt_get_final_transcription svc' sid) now)
         else (svc', Recording_failed ''Failed to stop recording''))"

section \<open>RealtimeAudioTranscriber (realtime\_websocket\_service.py)\<close>

text \<open>
  The \<open>with\<close> block of \<open>transcribe_audio_buffer\<close>: the temporary WAV file, written by
  the same statements as in the basic service.
\<close>

definition transcriber_wav_file :: "bool \<Rightarrow> byte list \<Rightarrow> byte list option" where
  "transcriber_wav_file tmp_ok buf =
     (if \<not> tmp_ok then None
      else
        let rate = 16000; bits_per_sample = 16; channels = 1 in
        file_writes
          [Some (bytes ''RIFF''),
           to_bytes (length buf + 36) 4,
           Some (bytes ''WAVE''),
           Some (bytes ''fmt ''),
           to_bytes 16 4,
           to_bytes 1 2,
           to_bytes channels 2,
           to_bytes rate 4,
           to_bytes (rate * channels * bits_per_sample div 8) 4,
           to_bytes (channels * bits_per_sample div 8) 2,
           to_bytes bits_per_sample 2,
           Some (bytes ''data''),
           to_bytes (length buf) 4,
           Some buf])"

text \<open>
  \<open>transcribe_audio_buffer\<close>; \<open>has_client\<close> says whether \<open>self.client\<close> is set. The
  collaborator answers with plain text here. Every exception gives \<open>None\<close>.
\<close>

definition transcribe_audio_buffer ::
  "bool \<Rightarrow> bool \<Rightarrow> byte list \<Rightarrow> byte list whisper \<Rightarrow> pystr option" where
  "transcribe_audio_buffer has_client tmp_ok buf whisper =
     (if \<not> has_client \<or> buf = [] then None
      else
        (case transcriber_wav_file tmp_ok buf of
           None \<Rightarrow> None
         | Some wav \<Rightarrow>
             (case whisper wav of
                Inl e \<Rightarrow> None
              | Inr t \<Rightarrow>
                  if transcript_text t \<noteq> [] then Some (strip (transcript_text t)) else None)))"

section \<open>Reading a WAV header back\<close>

text \<open>
  The canonical 44-byte header: the value of a little-endian field, and the bytes found
  at an offset.
\<close>

fun le_value :: "byte list \<Rightarrow> nat" where
  "le_value [] = 0"
| "le_value (b # bs) = unat b + 256 * le_value bs"

definition bytes_at :: "nat \<Rightarrow> nat \<Rightarrow> byte list \<Rightarrow> byte list" where
  "bytes_at offset len w = take len (drop offset w)"

section \<open>Runs of the basic service\<close>

text \<open>
  The calls a client can make on the basic service, each with what the environment
  contributes to it (identifier drawn, clock reading, whether the temporary file can be
  written, the collaborator's behaviour during the call).
\<close>

datatype event =
    Create_session "string option" string real
  | Start_recording string real
  | Stop_recording string real
  | Process_audio_data string "byte list" bool "byte list whisper" real
  | Transcribe_audio_file string "exn + byte list" "byte list whisper" real
  | Get_live_transcription string
  | Cleanup_session string

fun step :: "BasicRealtimeAudioService \<Rightarrow> event \<Rightarrow> BasicRealtimeAudioService" where
  "step svc (Create_session session_id_arg uuid now) = fst (create_session svc session_id_arg uuid now)"
| "step svc (Start_recording sid now) = fst (start_recording svc sid now)"
| "step svc (Stop_recording sid now) = fst (stop_recording svc sid now)"
| "step svc (Process_audio_data sid audio_data tmp_ok whisper now) =
     fst (process_audio_data svc sid audio_data tmp_ok whisper now)"
| "step svc (Transcribe_audio_file sid audio_file whisper now) =
     fst (transcribe_audio_file svc sid audio_file whisper now)"
| "step svc (Get_live_transcription sid) = fst (get_live_transcription svc sid)"
| "step svc (Cleanup_session sid) = fst (cleanup_session svc sid)"

fun run :: "BasicRealtimeAudioService \<Rightarrow> event list \<Rightarrow> BasicRealtimeAudioService" where
  "run svc [] = svc"
| "run svc (ev # evs) = run (step svc ev) evs"

text \<open>
  One session's segment traffic: calls that may append a segment (the session's own
  \<open>add_transcription_segment\<close>, an uploaded file, an audio chunk) interleaved with polls.
  The result lists, poll by poll, the \<open>new_segments\<close> each poll returned.
\<close>

datatype traffic =
    Append pystr real real
  | Upload "exn + byte list" "byte list whisper" real
  | Chunk "byte list" bool "byte list whisper" real
  | Poll

definition new_segments_of :: "string + live_transcription \<Rightarrow> segment list" where
  "new_segments_of r = (case r of Inl e \<Rightarrow> [] | Inr lt \<Rightarrow> lt_new_segments lt)"

fun interleave ::
  "BasicRealtimeAudioService \<Rightarrow> string \<Rightarrow> traffic list
     \<Rightarrow> BasicRealtimeAudioService \<times> segment list list" where
  "interleave svc sid [] = (svc, [])"
| "interleave svc sid (Append txt confidence now # rest) =
     (case sessions svc sid of
        None \<Rightarrow> interleave svc sid rest
      | Some s \<Rightarrow>
          interleave (svc\<lparr>sessions := (sessions svc)
                          (sid \<mapsto> add_transcription_segment s txt confidence now)\<rparr>) sid rest)"
| "interleave svc sid (Upload audio_file whisper now # rest) =
     interleave (fst (transcribe_audio_file svc sid audio_file whisper now)) sid rest"
| "interleave svc sid (Chunk audio_data tmp_ok whisper now # rest) =
     interleave (fst (process_audio_data svc sid audio_data tmp_ok whisper now)) sid rest"
| "interleave svc sid (Poll # rest) =
     (let (svc1, response) = get_live_transcription svc sid;
          (svc2, polled) = interleave svc1 sid rest
      in (svc2, new_segments_of response # polled))"

section \<open>Predicates of the statements\<close>

text \<open>A text with no whitespace at either end, and not empty.\<close>

definition stripped :: "pystr \<Rightarrow> bool" where
  "stripped t \<longleftrightarrow> t \<noteq> [] \<and> \<not> py_isspace (hd t) \<and> \<not> py_isspace (last t)"

text \<open>
  How \<open>add_transcription_segment\<close> builds the full transcription: a space and the text,
  for each segment of the log in turn.
\<close>

definition accumulated :: "BasicAudioSession \<Rightarrow> bool" where
  "accumulated s \<longleftrightarrow>
     full_transcription s = concat (map (\<lambda>g. SP @ seg_text g) (transcription_segments s))"

text \<open>The same, with every text of the log stripped and not empty.\<close>

definition derived :: "BasicAudioSession \<Rightarrow> bool" where
  "derived s \<longleftrightarrow>
     accumulated s \<and> list_all (\<lambda>g. stripped (seg_text g)) (transcription_segments s)"

section \<open>Feeding audio while the collaborator is down\<close>

text \<open>A collaborator that raises on every request.\<close>

definition failing :: "'a whisper \<Rightarrow> bool" where
  "failing w \<longleftrightarrow> (\<forall>x. isl (w x))"

text \<open>
  A stream of audio chunks sent to one session of the basic service, each with the
  environment of its call; the answers are collected in order.
\<close>

type_synonym chunk = "byte list \<times> bool \<times> byte list whisper \<times> real"

fun feed ::
  "BasicRealtimeAudioService \<Rightarrow> string \<Rightarrow> chunk list
     \<Rightarrow> BasicRealtimeAudioService \<times> process_result list" where
  "feed svc sid [] = (svc, [])"
| "feed svc sid ((audio_data, tmp_ok, whisper, now) # rest) =
     (let (svc1, r) = process_audio_data svc sid audio_data tmp_ok whisper now;
          (svc2, rs) = feed svc1 sid rest
      in (svc2, r # rs))"

text \<open>
  An answer that took the audio in: \<open>buffering\<close>, or \<open>processed\<close> with the collaborator's
  error inside; not the \<open>error\<close> answer.
\<close>

fun accepted :: "process_result \<Rightarrow> bool" where
  "accepted (Buffering n d) = True"
| "accepted (Processed (Transcribe_error msg)) = True"
| "accepted (Processed r) = False"
| "accepted (Process_error msg) = False"

text \<open>
  What the buffer of the basic service has to hold after a stream of chunks sent while
  the collaborator is down, starting from \<open>buf\<close>: every chunk is appended; a buffer that
  reached three seconds of audio (96000 bytes at 16 kHz, 16 bit) and fitted in a WAV file
  was handed to the collaborator and emptied, the failed request included.
\<close>

fun unsent :: "byte list \<Rightarrow> chunk list \<Rightarrow> byte list" where
  "unsent buf [] = buf"
| "unsent buf ((audio_data, tmp_ok, whisper, now) # rest) =
     (if 96000 \<le> length (buf @ audio_data) \<and> tmp_ok \<and> length (buf @ audio_data) + 36 < 2 ^ 32
      then unsent [] rest
      else unsent (buf @ audio_data) rest)"

text \<open>
  The answers owed to chunks that are only buffered: \<open>buffering\<close> with the number of bytes
  held so far, the \<open>n\<close> at the start and those of the chunks since, and the seconds they
  stand for.
\<close>

fun buffering_answers :: "nat \<Rightarrow> chunk list \<Rightarrow> process_result list" where
  "buffering_answers n [] = []"
| "buffering_answers n ((audio_data, tmp_ok, whisper, now) # rest) =
     Buffering (n + length audio_data) (real (n + length audio_data) / 32000)
       # buffering_answers (n + length audio_data) rest"

text \<open>
  A stream of chunks sent to one session of the ring-buffer service; the chunks are
  sample arrays that decoded.
\<close>

type_synonym rt_chunk = "sample list \<times> bool \<times> sample list whisper \<times> real"

fun rt_feed ::
  "RealtimeAudioService \<Rightarrow> string \<Rightarrow> rt_chunk list \<Rightarrow> RealtimeAudioService \<times> chunk_result list" where
  "rt_feed svc sid [] = (svc, [])"
| "rt_feed svc sid ((samples, tmp_ok, whisper, now) # rest) =
     (let (svc1, r) = process_audio_chunk svc sid (Inr samples) tmp_ok whisper now;
          (svc2, rs) = rt_feed svc1 sid rest
      in (svc2, r # rs))"

fun chunk_ok :: "chunk_result \<Rightarrow> bool" where
  "chunk_ok (Chunk_success level now) = True"
| "chunk_ok (Chunk_error msg) = False"

section \<open>What the ring buffer holds\<close>

text \<open>The last \<open>n\<close> elements of a list (all of it when it is shorter).\<close>

definition lastn :: "nat \<Rightarrow> 'a list \<Rightarrow> 'a list" where
  "lastn n xs = drop (length xs - n) xs"

text \<open>
  The buffer \<open>b\<close> after the samples \<open>h\<close> were written to a fresh buffer, oldest first:
  read from the cursor round to the cursor, the storage is the last \<open>buffer_size\<close>
  samples of the initial zeros followed by \<open>h\<close>.
\<close>

definition ring_inv :: "AudioBuffer \<Rightarrow> sample list \<Rightarrow> bool" where
  "ring_inv b h \<longleftrightarrow>
     0 < buffer_size b \<and> length (buffer b) = buffer_size b
     \<and> write_index b < buffer_size b \<and> write_index b \<le> length h
     \<and> drop (write_index b) (buffer b) @ take (write_index b) (buffer b)
           = lastn (buffer_size b) (replicate (buffer_size b) 0 @ h)
     \<and> (is_full b \<longrightarrow> buffer_size b \<le> length h)
     \<and> (\<not> is_full b \<longrightarrow> write_index b = length h mod buffer_size b)"

section \<open>Example states\<close>

text \<open>A manager holding one session, \<open>s1\<close>, that is recording and has two bytes buffered.\<close>

definition example_session :: BasicAudioSession where
  "example_session =
     \<lparr>session_id = ''s1'', created_at = 0, is_recording = True,
      recording_start_time = Some 1, recording_end_time = None,
      transcription_segments = [], full_transcription = [],
      transcription_queue = [], audio_buffer = [1, 2], last_transcription_time = None\<rparr>"

definition example_manager :: BasicRealtimeTranscriptionManager where
  "example_manager =
     \<lparr>audio_service = \<lparr>sessions = [''s1'' \<mapsto> example_session]\<rparr>, active_sessions = {''s1''}\<rparr>"

text \<open>
  A run of the basic service: a session is created and started, and three files are
  transcribed for it; the collaborator answers \<open>" hi "\<close>, then only blanks, then
  \<open>"there"\<close>. The session it ends with is \<open>example_result\<close>.
\<close>

definition answers :: "string \<Rightarrow> 'a whisper" where
  "answers s = (\<lambda>content. Inr \<lparr>transcript_text = str s, transcript_confidence = None\<rparr>)"

definition example_run :: "event list" where
  "example_run =
     [Create_session (Some ''s1'') ''u1'' 0,
      Start_recording ''s1'' 1,
      Transcribe_audio_file ''s1'' (Inr [1]) (answers '' hi '') 2,
      Transcribe_audio_file ''s1'' (Inr [2]) (answers ''  '') 3,
      Transcribe_audio_file ''s1'' (Inr [3]) (answers ''there'') 4]"

definition example_result :: BasicAudioSession where
  "example_result =
     \<lparr>session_id = ''s1'', created_at = 0, is_recording = True,
      recording_start_time = Some 1, recording_end_time = None,
      transcription_segments =
        [\<lparr>seg_text = str ''hi'', seg_timestamp = 2, seg_confidence = 0.9, seg_session_id = ''s1''\<rparr>,
         \<lparr>seg_text = str ''there'', seg_timestamp = 4, seg_confidence = 0.9, seg_session_id = ''s1''\<rparr>],
      full_transcription = str '' hi there'',
      transcription_queue =
        [\<lparr>seg_text = str ''hi'', seg_timestamp = 2, seg_confidence = 0.9, seg_session_id = ''s1''\<rparr>,
         \<lparr>seg_text = str ''there'', seg_timestamp = 4, seg_confidence = 0.9, seg_session_id = ''s1''\<rparr>],
      audio_buffer = [], last_transcription_time = Some 4\<rparr>"

text \<open>
  A service with one fresh session \<open>s1\<close>, and traffic for it: a segment, a poll, two
  more segments.
\<close>

definition fresh_service :: BasicRealtimeAudioService where
  "fresh_service = fst (create_session BasicRealtimeAudioService_init (Some ''s1'') ''u1'' 0)"

definition example_traffic :: "traffic list" where
  "example_traffic =
     [Append (str ''a'') 0.9 1, Poll, Append (str ''b'') 0.9 2, Append (str ''c'') 0.9 3]"

text \<open>
  A collaborator that is down, and the ring-buffer service after a session \<open>s1\<close> was
  created and started.
\<close>

definition down :: "'a whisper" where
  "down = (\<lambda>request. Inl (Exception ''service unavailable''))"

definition rt_example_session :: rt_session where
  "rt_example_session =
     \<lparr>rt_created_at = 0, rt_is_recording = True,
      rt_audio_buffer = AudioBuffer_init 16000 30,
      rt_transcription_queue = [], rt_full_transcription = [],
      rt_transcription_segments = [], rt_last_transcription_time = 0,
      rt_recording_start_time = Some 1, rt_final_transcription = None\<rparr>"

definition rt_example_service :: RealtimeAudioService where
  "rt_example_service =
     fst (rt_start_recording
            (fst (rt_create_session RealtimeAudioService_init (Some ''s1'') ''u1'' 0)) ''s1'' 1)"

text \<open>Two chunks for the basic service and one for the ring-buffer service, all sent
  while the collaborator is down.\<close>

definition example_chunks :: "chunk list" where
  "example_chunks = [([1, 2], True, down, 1), ([3], True, down, 2)]"

definition rt_example_chunks :: "rt_chunk list" where
  "rt_example_chunks = [([0.5, 0.25], True, down, 2)]"

text \<open>Two chunks for the basic service, the first of three seconds of audio.\<close>

definition example_long_chunks :: "chunk list" where
  "example_long_chunks = [(replicate 96000 0, True, down, 1), ([7], True, down, 2)]"

text \<open>
  The ring-buffer service after the recording session \<open>s1\<close> received a chunk of two
  samples, and after it received half a second of audio instead (8000 samples).
\<close>

definition rt_short_session :: rt_session where
  "rt_short_session =
     rt_example_session\<lparr>rt_audio_buffer := AudioBuffer_write (AudioBuffer_init 16000 30) [0.5, 0.25]\<rparr>"

definition rt_short_service :: RealtimeAudioService where
  "rt_short_service =
     fst (process_audio_chunk rt_example_service ''s1'' (Inr [0.5, 0.25]) True (answers ''hello'') 2)"

definition rt_long_session :: rt_session where
  "rt_long_session =
     rt_example_session\<lparr>rt_audio_buffer :=
        AudioBuffer_write (AudioBuffer_init 16000 30) (replicate 8000 0.5)\<rparr>"

definition rt_long_service :: RealtimeAudioService where
  "rt_long_service =
     fst (process_audio_chunk rt_example_service ''s1'' (Inr (replicate 8000 0.5)) True
            (answers ''hello'') 2)"

text \<open>
  The ring-buffer service after the recording session \<open>s1\<close> received, in one chunk, one
  sample more than its buffer holds (480001 samples, the first one different from the
  rest); and a collaborator that answers \<open>"hello"\<close> only when it is given exactly \<open>n\<close>
  samples, all of them 0.5.
\<close>

definition rt_full_session :: rt_session where
  "rt_full_session =
     rt_example_session\<lparr>rt_audio_buffer :=
        AudioBuffer_write (AudioBuffer_init 16000 30) (0.25 # replicate 480000 0.5)\<rparr>"

definition rt_full_service :: RealtimeAudioService where
  "rt_full_service =
     fst (process_audio_chunk rt_example_service ''s1'' (Inr (0.25 # replicate 480000 0.5)) True
            (answers ''hello'') 2)"

definition heard :: "nat \<Rightarrow> sample list whisper" where
  "heard n = (\<lambda>window. if length window = n \<and> set window \<subseteq> {0.5}
                then Inr \<lparr>transcript_text = str ''hello'', transcript_confidence = None\<rparr>
                else Inr \<lparr>transcript_text = str ''other'', transcript_confidence = None\<rparr>)"

section \<open>Session state machine\<close>

text \<open>
  C3, as stated, fails. Through the manager that serves the HTTP and WebSocket interface,
  a stop on a session that was never started is answered with \<open>recording_stopped\<close> and
  changes the session (its end time is set); the second of two starts in a row is
  answered with \<open>recording_started\<close>.
\<close>

theorem stop_before_start_is_accepted:
  "snd (manager_stop_recording
          (fst (manager_create_session BasicRealtimeTranscriptionManager_init ''s1'' 0)) ''s1'' 1)
     = Recording_stopped ''s1'' (Some []) 1
   \<and> sessions (audio_service (fst (manager_stop_recording
          (fst (manager_create_session BasicRealtimeTranscriptionManager_init ''s1'' 0)) ''s1'' 1))) ''s1''
     \<noteq> sessions (audio_service
          (fst (manager_create_session BasicRealtimeTranscriptionManager_init ''s1'' 0))) ''s1''
   \<and> snd (manager_start_recording
          (fst (manager_start_recording
             (fst (manager_create_session BasicRealtimeTranscriptionManager_init ''s1'' 0)) ''s1'' 1))
          ''s1'' 2)
     = Recording_started ''s1'' 2"
  by (simp add: manager_stop_recording_def manager_start_recording_def manager_create_session_def
      BasicRealtimeTranscriptionManager_init_def BasicRealtimeAudioService_init_def
      create_session_def stop_recording_def start_recording_def get_final_transcription_def
      BasicAudioSession_init_def BasicAudioSession_stop_recording_def
      BasicAudioSession_start_recording_def strip_def Let_def)

text \<open>
  C3, amended. Start and stop never look at the recording flag. For every session that
  exists, whatever its state, a stop clears the flag, sets the end time and is answered
  with \<open>recording_stopped\<close> carrying the stripped accumulated transcript; a start sets the
  flag and the start time and is answered with \<open>recording_started\<close>. The only call that
  is rejected is one for an unknown session id, which leaves the manager as it was.
\<close>

theorem start_stop_accept_every_state:
  "(sessions (audio_service m) sid = Some s \<longrightarrow>
      manager_stop_recording m sid now =
        (m\<lparr>audio_service := (audio_service m)\<lparr>sessions := (sessions (audio_service m))
             (sid \<mapsto> s\<lparr>is_recording := False, recording_end_time := Some now\<rparr>)\<rparr>\<rparr>,
         Recording_stopped sid (Some (strip (full_transcription s))) now)
      \<and> manager_start_recording m sid now =
        (m\<lparr>audio_service := (audio_service m)\<lparr>sessions := (sessions (audio_service m))
             (sid \<mapsto> s\<lparr>is_recording := True, recording_start_time := Some now\<rparr>)\<rparr>\<rparr>,
         Recording_started sid now))
   \<and> (sessions (audio_service m) sid = None \<longrightarrow>
      manager_stop_recording m sid now = (m, Recording_failed ''Failed to stop recording'')
      \<and> manager_start_recording m sid now = (m, Recording_failed ''Failed to start recording''))"
  by (simp add: manager_stop_recording_def manager_start_recording_def
      stop_recording_def start_recording_def get_final_transcription_def
      BasicAudioSession_stop_recording_def BasicAudioSession_start_recording_def)

theorem start_stop_accept_every_state_witness:
  "sessions (audio_service example_manager) ''s1'' = Some example_session
   \<and> is_recording example_session
   \<and> snd (manager_start_recording example_manager ''s1'' 2) = Recording_started ''s1'' 2
   \<and> snd (manager_stop_recording example_manager ''s1'' 2) = Recording_stopped ''s1'' (Some []) 2
   \<and> sessions (audio_service example_manager) ''s2'' = None
   \<and> manager_stop_recording example_manager ''s2'' 2
        = (example_manager, Recording_failed ''Failed to stop recording'')"
  using start_stop_accept_every_state [of example_manager "''s1''" example_session 2]
        start_stop_accept_every_state [of example_manager "''s2''" example_session 2]
  by (simp add: example_manager_def example_session_def strip_def)

text \<open>
  C10. In the basic service, for every session that exists, \<open>stop_recording\<close> returns
  \<open>True\<close> and replaces the session by one that differs only in the recording flag (now
  false) and the end time (now the time of the call): the segment log, the full
  transcription, the audio buffer and the delivery queue are the same. The operation
  takes no collaborator: no transcription can be made by it.
\<close>

theorem stop_recording_frame:
  assumes "sessions svc sid = Some s"
  shows "\<exists>s'. stop_recording svc sid now = (svc\<lparr>sessions := (sessions svc)(sid \<mapsto> s')\<rparr>, True)
            \<and> s' = s\<lparr>is_recording := False, recording_end_time := Some now\<rparr>
            \<and> transcription_segments s' = transcription_segments s
            \<and> full_transcription s' = full_transcription s
            \<and> audio_buffer s' = audio_buffer s
            \<and> transcription_queue s' = transcription_queue s"
  using assms by (simp add: stop_recording_def BasicAudioSession_stop_recording_def)

theorem stop_recording_frame_witness:
  "sessions (audio_service example_manager) ''s1'' = Some example_session
   \<and> stop_recording (audio_service example_manager) ''s1'' 5
       = (\<lparr>sessions = [''s1'' \<mapsto> example_session\<lparr>is_recording := False,
                                                   recording_end_time := Some 5\<rparr>]\<rparr>, True)
   \<and> audio_buffer (example_session\<lparr>is_recording := False, recording_end_time := Some 5\<rparr>) = [1, 2]"
  using stop_recording_frame [of "audio_service example_manager" "''s1''" example_session 5]
  by (simp add: example_manager_def example_session_def)

section \<open>Audio ingestion\<close>

text \<open>
  C6. In the basic service a freshly created session, which is not recording, is sent two
  bytes of audio: the call is answered with \<open>buffering\<close>, not with an error, and the two
  bytes are in the session's buffer afterwards.
\<close>

theorem idle_session_buffers_audio:
  "process_audio_data (fst (create_session BasicRealtimeAudioService_init None ''s1'' 0)) ''s1''
       [1, 2] True whisper 1
     = (\<lparr>sessions = [''s1'' \<mapsto> (BasicAudioSession_init ''s1'' 0)\<lparr>audio_buffer := [1, 2]\<rparr>]\<rparr>,
        Buffering 2 (2 / 32000))"
  by (simp add: process_audio_data_def create_session_def BasicRealtimeAudioService_init_def
      BasicAudioSession_init_def add_audio_data_def get_audio_buffer_size_def Let_def)

text \<open>
  The ring-buffer service has the check that the basic service lacks: a session that is
  not recording rejects the chunk and is left as it was.
\<close>

lemma process_audio_chunk_rejects_when_not_recording:
  "rt_sessions svc sid = Some session \<Longrightarrow> \<not> rt_is_recording session \<Longrightarrow>
   process_audio_chunk svc sid audio_array tmp_ok whisper now
     = (svc, Chunk_error ''Session not recording'')"
  by (simp add: process_audio_chunk_def)

section \<open>Session cleanup\<close>

text \<open>
  C9. When the session exists, the first \<open>DELETE /audio/session/{id}\<close> answers
  \<open>cleaned_up\<close> and removes that session and no other; the second answers \<open>not_found\<close>
  and changes nothing. Neither answers with an exception. Removing an id that the
  service does not hold returns \<open>False\<close> and leaves the service as it was.
\<close>

theorem delete_session_twice:
  "(sid \<in> dom (sessions (audio_service m)) \<longrightarrow>
      (\<exists>m1. cleanup_audio_session (Some m) sid t1 =
               (Some m1, Inr \<lparr>cr_session_id = sid, cr_status = cleaned_up, cr_timestamp = t1\<rparr>)
          \<and> sessions (audio_service m1) sid = None
          \<and> (\<forall>other. other \<noteq> sid \<longrightarrow>
                sessions (audio_service m1) other = sessions (audio_service m) other)
          \<and> cleanup_audio_session (Some m1) sid t2 =
               (Some m1, Inr \<lparr>cr_session_id = sid, cr_status = not_found, cr_timestamp = t2\<rparr>)))
   \<and> (sid \<notin> dom (sessions svc) \<longrightarrow> cleanup_session svc sid = (svc, False))"
  by (auto simp add: cleanup_audio_session_def manager_cleanup_session_def cleanup_session_def)

theorem delete_session_twice_witness:
  "''s1'' \<in> dom (sessions (audio_service example_manager))
   \<and> (\<exists>m1. cleanup_audio_session (Some example_manager) ''s1'' 3 =
               (Some m1, Inr \<lparr>cr_session_id = ''s1'', cr_status = cleaned_up, cr_timestamp = 3\<rparr>)
          \<and> sessions (audio_service m1) ''s1'' = None
          \<and> cleanup_audio_session (Some m1) ''s1'' 4 =
               (Some m1, Inr \<lparr>cr_session_id = ''s1'', cr_status = not_found, cr_timestamp = 4\<rparr>))
   \<and> ''s2'' \<notin> dom (sessions (audio_service example_manager))
   \<and> cleanup_session (audio_service example_manager) ''s2'' = (audio_service example_manager, False)"
proof -
  have present: "''s1'' \<in> dom (sessions (audio_service example_manager))"
    by (simp add: example_manager_def)
  have absent: "''s2'' \<notin> dom (sessions (audio_service example_manager))"
    by (simp add: example_manager_def)
  from present absent
    delete_session_twice [of "''s1''" example_manager 3 4 "audio_service example_manager"]
    delete_session_twice [of "''s2''" example_manager 3 4 "audio_service example_manager"]
  show ?thesis by blast
qed

section \<open>The WAV header\<close>

lemma length_le_bytes [simp]: "length (le_bytes k n) = k"
  by (induction k arbitrary: n) simp_all

lemma length_bytes [simp]: "length (bytes s) = length s"
  by (simp add: bytes_def)

lemma le_value_le_bytes: "le_value (le_bytes k n) = n mod 256 ^ k"
proof (induction k arbitrary: n)
  case 0
  then show ?case by simp
next
  case (Suc k)
  have "unat (of_nat (n mod 256) :: byte) = n mod 256"
    by (simp add: unat_of_nat)
  then show ?case
    using Suc [of "n div 256"] by (simp add: mod_mult2_eq)
qed

lemma le_value_small: "n < 256 ^ k \<Longrightarrow> le_value (le_bytes k n) = n"
  by (simp add: le_value_le_bytes)

lemma to_bytes_Some: "n < 256 ^ k \<Longrightarrow> to_bytes n k = Some (le_bytes k n)"
  by (simp add: to_bytes_def)

lemma le_bytes_2: "le_bytes 2 n = [of_nat (n mod 256), of_nat (n div 256 mod 256)]"
proof -
  have "(2::nat) = Suc (Suc 0)" by simp
  then show ?thesis by (simp only: le_bytes.simps)
qed

lemma le_bytes_4:
  "le_bytes 4 n = [of_nat (n mod 256), of_nat (n div 256 mod 256),
                   of_nat (n div 256 div 256 mod 256), of_nat (n div 256 div 256 div 256 mod 256)]"
proof -
  have "(4::nat) = Suc (Suc (Suc (Suc 0)))" by simp
  then show ?thesis by (simp only: le_bytes.simps)
qed

text \<open>The file that is written when nothing raises.\<close>

lemma wav_content:
  assumes "tmp_ok" and "length buf + 36 < 2 ^ 32"
  shows "create_temp_wav_from_buffer tmp_ok buf =
     Some (bytes ''RIFF'' @ le_bytes 4 (length buf + 36) @ bytes ''WAVE'' @ bytes ''fmt ''
           @ le_bytes 4 16 @ le_bytes 2 1 @ le_bytes 2 1 @ le_bytes 4 16000 @ le_bytes 4 32000
           @ le_bytes 2 2 @ le_bytes 2 16 @ bytes ''data'' @ le_bytes 4 (length buf) @ buf)"
proof -
  have a: "to_bytes (length buf + 36) 4 = Some (le_bytes 4 (length buf + 36))"
    using assms(2) by (intro to_bytes_Some) simp
  have b: "to_bytes (length buf) 4 = Some (le_bytes 4 (length buf))"
    using assms(2) by (intro to_bytes_Some) simp
  have c: "to_bytes 16 4 = Some (le_bytes 4 16)" "to_bytes 1 2 = Some (le_bytes 2 1)"
    "to_bytes 16000 4 = Some (le_bytes 4 16000)" "to_bytes 32000 4 = Some (le_bytes 4 32000)"
    "to_bytes 2 2 = Some (le_bytes 2 2)" "to_bytes 16 2 = Some (le_bytes 2 16)"
    "to_bytes (Suc 0) 2 = Some (le_bytes 2 (Suc 0))"
    by (simp_all add: to_bytes_def)
  show ?thesis
    using assms(1) by (simp add: create_temp_wav_from_buffer_def a b c)
qed

text \<open>No file when the temporary file fails or the sizes do not fit in four bytes.\<close>

lemma wav_none:
  assumes "\<not> (tmp_ok \<and> length buf + 36 < 2 ^ 32)"
  shows "create_temp_wav_from_buffer tmp_ok buf = None"
  using assms by (auto simp add: create_temp_wav_from_buffer_def to_bytes_def)

lemma transcriber_wav_file_eq:
  "transcriber_wav_file tmp_ok buf = create_temp_wav_from_buffer tmp_ok buf"
  by (simp add: transcriber_wav_file_def create_temp_wav_from_buffer_def)

text \<open>
  C8. Whenever a WAV file is produced for a payload of \<open>n\<close> bytes, by the basic service or
  by the WebSocket transcriber, it is the 44-byte canonical header followed by the
  payload: \<open>RIFF\<close>, ChunkSize \<open>n + 36\<close>, \<open>WAVE\<close>, \<open>fmt\<close> with Subchunk1Size 16, PCM
  format 1, 1 channel, sample rate 16000, byte rate 32000, block align 2, 16 bits per
  sample, \<open>data\<close>, Subchunk2Size \<open>n\<close>. A file is produced exactly when the temporary file
  can be written and \<open>n + 36\<close> fits the four-byte size field; otherwise the source
  returns \<open>None\<close> and nothing is handed to the collaborator.
\<close>

theorem wav_header_matches_payload:
  "(create_temp_wav_from_buffer tmp_ok buf = Some w \<longrightarrow>
      length w = 44 + length buf
      \<and> bytes_at 0 4 w = bytes ''RIFF''
      \<and> le_value (bytes_at 4 4 w) = length buf + 36
      \<and> bytes_at 8 4 w = bytes ''WAVE''
      \<and> bytes_at 12 4 w = bytes ''fmt ''
      \<and> le_value (bytes_at 16 4 w) = 16
      \<and> le_value (bytes_at 20 2 w) = 1
      \<and> le_value (bytes_at 22 2 w) = 1
      \<and> le_value (bytes_at 24 4 w) = 16000
      \<and> le_value (bytes_at 28 4 w) = 32000
      \<and> le_value (bytes_at 32 2 w) = 2
      \<and> le_value (bytes_at 34 2 w) = 16
      \<and> bytes_at 36 4 w = bytes ''data''
      \<and> le_value (bytes_at 40 4 w) = length buf
      \<and> drop 44 w = buf)
   \<and> (create_temp_wav_from_buffer tmp_ok buf \<noteq> None \<longleftrightarrow> tmp_ok \<and> length buf + 36 < 2 ^ 32)
   \<and> transcriber_wav_file tmp_ok buf = create_temp_wav_from_buffer tmp_ok buf"
proof (cases "tmp_ok \<and> length buf + 36 < 2 ^ 32")
  case False
  then show ?thesis
    using wav_none [of tmp_ok buf] transcriber_wav_file_eq [of tmp_ok buf] by auto
next
  case True
  then have fits: "length buf + 36 < 256 ^ 4" "length buf < 256 ^ 4" by simp_all
  note content = wav_content [of tmp_ok buf]
  have v: "le_value (le_bytes 4 (length buf + 36)) = length buf + 36"
     "le_value (le_bytes 4 (length buf)) = length buf"
     "le_value (le_bytes 4 16) = 16" "le_value (le_bytes 2 1) = 1"
     "le_value (le_bytes 4 16000) = 16000" "le_value (le_bytes 4 32000) = 32000"
     "le_value (le_bytes 2 2) = 2" "le_value (le_bytes 2 16) = 16"
     "le_value (le_bytes 2 (Suc 0)) = Suc 0"
    using fits by (simp_all add: le_value_small)
  show ?thesis
    using True content transcriber_wav_file_eq [of tmp_ok buf] by (auto simp add: bytes_at_def v)
qed

theorem wav_header_matches_payload_witness:
  "create_temp_wav_from_buffer True [1, 2, 3] =
     Some [82, 73, 70, 70, 39, 0, 0, 0, 87, 65, 86, 69, 102, 109, 116, 32, 16, 0, 0, 0, 1, 0, 1, 0,
           128, 62, 0, 0, 0, 125, 0, 0, 2, 0, 16, 0, 100, 97, 116, 97, 3, 0, 0, 0, 1, 2, 3]
   \<and> le_value (bytes_at 4 4
        [82, 73, 70, 70, 39, 0, 0, 0, 87, 65, 86, 69, 102, 109, 116, 32, 16, 0, 0, 0, 1, 0, 1, 0,
         128, 62, 0, 0, 0, 125, 0, 0, 2, 0, 16, 0, 100, 97, 116, 97, 3, 0, 0, 0, 1, 2, 3]) = 39
   \<and> le_value (bytes_at 28 4
        [82, 73, 70, 70, 39, 0, 0, 0, 87, 65, 86, 69, 102, 109, 116, 32, 16, 0, 0, 0, 1, 0, 1, 0,
         128, 62, 0, 0, 0, 125, 0, 0, 2, 0, 16, 0, 100, 97, 116, 97, 3, 0, 0, 0, 1, 2, 3]) = 32000
   \<and> le_value (bytes_at 40 4
        [82, 73, 70, 70, 39, 0, 0, 0, 87, 65, 86, 69, 102, 109, 116, 32, 16, 0, 0, 0, 1, 0, 1, 0,
         128, 62, 0, 0, 0, 125, 0, 0, 2, 0, 16, 0, 100, 97, 116, 97, 3, 0, 0, 0, 1, 2, 3]) = 3"
proof -
  have made: "create_temp_wav_from_buffer True [1, 2, 3] =
     Some [82, 73, 70, 70, 39, 0, 0, 0, 87, 65, 86, 69, 102, 109, 116, 32, 16, 0, 0, 0, 1, 0, 1, 0,
           128, 62, 0, 0, 0, 125, 0, 0, 2, 0, 16, 0, 100, 97, 116, 97, 3, 0, 0, 0, 1, 2, 3]"
    by (simp add: create_temp_wav_from_buffer_def to_bytes_def bytes_def le_bytes_2 le_bytes_4)
  from made wav_header_matches_payload [of True "[1, 2, 3]"
      "[82, 73, 70, 70, 39, 0, 0, 0, 87, 65, 86, 69, 102, 109, 116, 32, 16, 0, 0, 0, 1, 0, 1, 0,
        128, 62, 0, 0, 0, 125, 0, 0, 2, 0, 16, 0, 100, 97, 116, 97, 3, 0, 0, 0, 1, 2, 3]"]
  show ?thesis by simp
qed

section \<open>Strings\<close>

lemma strip_Nil [simp]: "strip [] = []"
  by (simp add: strip_def)

lemma strip_of_stripped: "stripped t \<Longrightarrow> strip t = t"
  unfolding stripped_def strip_def
  by (metis last_rev dropWhile_eq_self_iff rev_rev_ident)

lemma strip_stripped: "strip t \<noteq> [] \<Longrightarrow> stripped (strip t)"
  unfolding stripped_def strip_def
  by (metis Nil_is_rev_conv dropWhile.simps(1) hd_dropWhile hd_rev
      last_appendR last_rev takeWhile_dropWhile_id)

lemma strip_idem [simp]: "strip (strip t) = strip t"
  by (cases "strip t = []") (simp_all add: strip_stripped strip_of_stripped)

lemma strip_SP: "strip (SP @ s) = strip s"
  by (simp add: strip_def SP_def py_isspace_def)

lemma concat_SP_join:
  "ts \<noteq> [] \<Longrightarrow> concat (map (\<lambda>t. SP @ t) ts) = SP @ join SP ts"
  by (induction SP ts rule: join.induct) simp_all

lemma join_stripped:
  "ts \<noteq> [] \<Longrightarrow> list_all stripped ts \<Longrightarrow> stripped (join SP ts)"
proof (induction SP ts rule: join.induct)
  case 1
  then show ?case by simp
next
  case (2 t)
  then show ?case by simp
next
  case (3 t v va)
  then have "stripped (join SP (v # va))" by simp
  moreover have "stripped t" using 3 by simp
  ultimately show ?case by (simp add: stripped_def)
qed

lemma strip_concat_join: "strip (concat (map (\<lambda>t. SP @ t) ts)) = strip (join SP ts)"
  by (cases "ts = []") (simp_all add: concat_SP_join strip_SP)

lemma strip_concat_stripped:
  "list_all stripped ts \<Longrightarrow> strip (concat (map (\<lambda>t. SP @ t) ts)) = join SP ts"
  by (cases "ts = []") (simp_all add: strip_concat_join join_stripped strip_of_stripped)

section \<open>Transcript derivation\<close>

lemma accumulated_reported:
  "accumulated s \<Longrightarrow>
   strip (full_transcription s) = strip (join SP (map seg_text (transcription_segments s)))"
  using strip_concat_join [of "map seg_text (transcription_segments s)"]
  by (simp add: accumulated_def comp_def)

lemma derived_reported:
  "derived s \<Longrightarrow> strip (full_transcription s) = join SP (map seg_text (transcription_segments s))"
  using strip_concat_stripped [of "map seg_text (transcription_segments s)"]
  by (simp add: derived_def accumulated_def comp_def list_all_iff)

lemma add_transcription_segment_fields:
  "transcription_segments (add_transcription_segment s txt c now) =
     transcription_segments s @ [\<lparr>seg_text = strip txt, seg_timestamp = now,
                                   seg_confidence = c, seg_session_id = session_id s\<rparr>]"
  "transcription_queue (add_transcription_segment s txt c now) =
     transcription_queue s @ [\<lparr>seg_text = strip txt, seg_timestamp = now,
                                seg_confidence = c, seg_session_id = session_id s\<rparr>]"
  "full_transcription (add_transcription_segment s txt c now) = full_transcription s @ SP @ strip txt"
  "audio_buffer (add_transcription_segment s txt c now) = audio_buffer s"
  "is_recording (add_transcription_segment s txt c now) = is_recording s"
  by (simp_all add: add_transcription_segment_def Let_def)

lemma accumulated_add:
  "accumulated s \<Longrightarrow> accumulated (add_transcription_segment s txt c now)"
  by (simp add: accumulated_def add_transcription_segment_fields)

lemma derived_add:
  "derived s \<Longrightarrow> strip txt \<noteq> [] \<Longrightarrow> derived (add_transcription_segment s txt c now)"
  by (simp add: derived_def accumulated_def add_transcription_segment_fields strip_stripped)

lemma derived_init: "derived (BasicAudioSession_init sid now)"
  by (simp add: derived_def accumulated_def BasicAudioSession_init_def)

lemma derived_frame:
  "derived s \<Longrightarrow> derived (add_audio_data s d)"
  "derived s \<Longrightarrow> derived (clear_audio_buffer s)"
  "derived s \<Longrightarrow> derived (BasicAudioSession_start_recording s now)"
  "derived s \<Longrightarrow> derived (BasicAudioSession_stop_recording s now)"
  "derived s \<Longrightarrow> derived (s\<lparr>transcription_queue := q\<rparr>)"
  by (simp_all add: derived_def accumulated_def add_audio_data_def clear_audio_buffer_def
      BasicAudioSession_start_recording_def BasicAudioSession_stop_recording_def)

section \<open>What each call of the basic service does to one session\<close>

lemma drain_queue_eq: "drain_queue q acc = ([], acc @ q)"
  by (induction q arbitrary: acc) simp_all

lemma get_live_transcription_Some:
  "sessions svc sid = Some s \<Longrightarrow>
   get_live_transcription svc sid =
     (svc\<lparr>sessions := (sessions svc)(sid \<mapsto> s\<lparr>transcription_queue := []\<rparr>)\<rparr>,
      Inr \<lparr>lt_session_id = sid, lt_is_recording = is_recording s,
           lt_new_segments = transcription_queue s,
           lt_full_transcription = strip (full_transcription s),
           lt_segment_count = length (transcription_segments s)\<rparr>)"
  by (simp add: get_live_transcription_def drain_queue_eq)

lemma get_live_transcription_None:
  "sessions svc sid = None \<Longrightarrow> get_live_transcription svc sid = (svc, Inl ''Session not found'')"
  by (simp add: get_live_transcription_def)

lemma service_upd_same:
  "sessions svc sid = Some s \<Longrightarrow> svc\<lparr>sessions := (sessions svc)(sid \<mapsto> s)\<rparr> = svc"
  by (simp add: map_upd_triv)

lemma transcribe_audio_file_None:
  "sessions svc sid = None \<Longrightarrow>
   transcribe_audio_file svc sid f w now = (svc, Transcribe_error ''Session not found'')"
  by (simp add: transcribe_audio_file_def)

lemma process_audio_data_None:
  "sessions svc sid = None \<Longrightarrow>
   process_audio_data svc sid d ok w now = (svc, Process_error ''Session not found'')"
  by (simp add: process_audio_data_def)

lemma transcribe_audio_file_cases:
  assumes "sessions svc sid = Some s"
  shows "\<exists>s'. fst (transcribe_audio_file svc sid f w now) = svc\<lparr>sessions := (sessions svc)(sid \<mapsto> s')\<rparr>
           \<and> (s' = s \<or> (\<exists>txt c. strip txt \<noteq> [] \<and> s' = add_transcription_segment s txt c now))"
proof (cases "\<exists>content t. f = Inr content \<and> w content = Inr t \<and> strip (transcript_text t) \<noteq> []")
  case True
  then obtain content t where "f = Inr content" "w content = Inr t" "strip (transcript_text t) \<noteq> []"
    by blast
  then have "fst (transcribe_audio_file svc sid f w now) =
      svc\<lparr>sessions := (sessions svc)(sid \<mapsto> add_transcription_segment s (strip (transcript_text t))
         (case transcript_confidence t of None \<Rightarrow> 0.9 | Some c \<Rightarrow> c) now)\<rparr>"
    using assms by (simp add: transcribe_audio_file_def Let_def)
  moreover have "strip (strip (transcript_text t)) \<noteq> []"
    using \<open>strip (transcript_text t) \<noteq> []\<close> by simp
  ultimately show ?thesis by blast
next
  case False
  then have "fst (transcribe_audio_file svc sid f w now) = svc"
    using assms by (auto simp add: transcribe_audio_file_def Let_def split: sum.splits exn.splits)
  moreover have "svc = svc\<lparr>sessions := (sessions svc)(sid \<mapsto> s)\<rparr>"
    using assms by (simp add: service_upd_same)
  ultimately show ?thesis by metis
qed

lemma process_audio_data_cases:
  assumes "sessions svc sid = Some s"
  shows "\<exists>s'. fst (process_audio_data svc sid d ok w now) = svc\<lparr>sessions := (sessions svc)(sid \<mapsto> s')\<rparr>
           \<and> (s' = add_audio_data s d \<or> s' = clear_audio_buffer (add_audio_data s d)
               \<or> (\<exists>txt c. strip txt \<noteq> []
                     \<and> s' = clear_audio_buffer (add_transcription_segment (add_audio_data s d) txt c now)))"
proof -
  let ?s1 = "add_audio_data s d"
  let ?svc1 = "svc\<lparr>sessions := (sessions svc)(sid \<mapsto> ?s1)\<rparr>"
  show ?thesis
  proof (cases "real (get_audio_buffer_size ?s1) / (16000 * 2) \<ge> 3.0")
    case False
    then have "fst (process_audio_data svc sid d ok w now) = ?svc1"
      using assms by (simp add: process_audio_data_def Let_def)
    then show ?thesis by blast
  next
    case long: True
    show ?thesis
    proof (cases "create_temp_wav_from_buffer ok (audio_buffer ?s1)")
      case None
      then have "fst (process_audio_data svc sid d ok w now) = ?svc1"
        using assms long by (simp add: process_audio_data_def Let_def)
      then show ?thesis by blast
    next
      case (Some temp)
      have "sessions ?svc1 sid = Some ?s1" by simp
      from transcribe_audio_file_cases [OF this, of "Inr temp" w now]
      obtain s2 where s2: "fst (transcribe_audio_file ?svc1 sid (Inr temp) w now)
                             = ?svc1\<lparr>sessions := (sessions ?svc1)(sid \<mapsto> s2)\<rparr>"
        and alt: "s2 = ?s1 \<or> (\<exists>txt c. strip txt \<noteq> [] \<and> s2 = add_transcription_segment ?s1 txt c now)"
        by blast
      obtain svc2 r where tr: "transcribe_audio_file ?svc1 sid (Inr temp) w now = (svc2, r)"
        by fastforce
      with s2 have svc2: "svc2 = svc\<lparr>sessions := (sessions svc)(sid \<mapsto> s2)\<rparr>" by simp
      have "process_audio_data svc sid d ok w now
              = (svc\<lparr>sessions := (sessions svc)(sid \<mapsto> clear_audio_buffer s2)\<rparr>, Processed r)"
        using assms long Some tr svc2
        by (simp add: process_audio_data_def Let_def)
      then show ?thesis using alt by auto
    qed
  qed
qed

section \<open>Transcript derivation over runs\<close>

lemma upd_derived:
  assumes "\<And>i s. sessions svc i = Some s \<Longrightarrow> derived s" and "derived s1"
    and "sessions (svc\<lparr>sessions := (sessions svc)(x \<mapsto> s1)\<rparr>) i = Some s'"
  shows "derived s'"
  using assms by (cases "i = x") auto

lemma step_derived:
  assumes inv: "\<And>i s. sessions svc i = Some s \<Longrightarrow> derived s"
    and after: "sessions (step svc ev) i = Some s'"
  shows "derived s'"
proof (cases ev)
  case (Create_session a uuid now)
  with after inv show ?thesis
    by (auto simp add: create_session_def Let_def derived_init split: if_splits option.splits)
next
  case (Start_recording x now)
  with after inv show ?thesis
    by (auto simp add: start_recording_def derived_frame split: if_splits option.splits)
next
  case (Stop_recording x now)
  with after inv show ?thesis
    by (auto simp add: stop_recording_def derived_frame split: if_splits option.splits)
next
  case (Process_audio_data x d ok w now)
  show ?thesis
  proof (cases "sessions svc x")
    case None
    with after inv Process_audio_data show ?thesis by (simp add: process_audio_data_None)
  next
    case (Some s)
    from process_audio_data_cases [OF Some, of d ok w now]
    obtain s1 where s1: "fst (process_audio_data svc x d ok w now) = svc\<lparr>sessions := (sessions svc)(x \<mapsto> s1)\<rparr>"
      and alt: "s1 = add_audio_data s d \<or> s1 = clear_audio_buffer (add_audio_data s d)
               \<or> (\<exists>txt c. strip txt \<noteq> []
                     \<and> s1 = clear_audio_buffer (add_transcription_segment (add_audio_data s d) txt c now))"
      by blast
    have "derived s" using inv Some by blast
    with alt have "derived s1" by (auto simp add: derived_frame derived_add)
    with inv after s1 Process_audio_data show ?thesis
      using upd_derived [of svc s1 x i s'] by simp
  qed
next
  case (Transcribe_audio_file x f w now)
  show ?thesis
  proof (cases "sessions svc x")
    case None
    with after inv Transcribe_audio_file show ?thesis by (simp add: transcribe_audio_file_None)
  next
    case (Some s)
    from transcribe_audio_file_cases [OF Some, of f w now]
    obtain s1 where s1: "fst (transcribe_audio_file svc x f w now) = svc\<lparr>sessions := (sessions svc)(x \<mapsto> s1)\<rparr>"
      and alt: "s1 = s \<or> (\<exists>txt c. strip txt \<noteq> [] \<and> s1 = add_transcription_segment s txt c now)"
      by blast
    have "derived s" using inv Some by blast
    with alt have "derived s1" by (auto simp add: derived_add)
    with inv after s1 Transcribe_audio_file show ?thesis
      using upd_derived [of svc s1 x i s'] by simp
  qed
next
  case (Get_live_transcription x)
  show ?thesis
  proof (cases "sessions svc x")
    case None
    with after inv Get_live_transcription show ?thesis by (simp add: get_live_transcription_None)
  next
    case (Some s)
    have "derived (s\<lparr>transcription_queue := []\<rparr>)" using inv Some by (simp add: derived_frame)
    with inv after Some Get_live_transcription show ?thesis
      using upd_derived [of svc "s\<lparr>transcription_queue := []\<rparr>" x i s']
      by (simp add: get_live_transcription_Some)
  qed
next
  case (Cleanup_session x)
  with after inv show ?thesis
    by (auto simp add: cleanup_session_def split: if_splits)
qed

lemma run_derived:
  assumes "\<And>i s. sessions svc i = Some s \<Longrightarrow> derived s"
    and "sessions (run svc evs) i = Some s'"
  shows "derived s'"
  using assms
proof (induction evs arbitrary: svc)
  case Nil
  then show ?case by simp
next
  case (Cons ev evs)
  show ?case
  proof (rule Cons.IH)
    show "sessions (run (step svc ev) evs) i = Some s'" using Cons.prems(2) by simp
    show "\<And>j s. sessions (step svc ev) j = Some s \<Longrightarrow> derived s"
      using step_derived [of svc ev] Cons.prems(1) by blast
  qed
qed

text \<open>
  C4. In every state the basic service can reach from its start, by any sequence of
  calls and whatever the collaborator answers, the full transcription that a status
  query and a transcription poll report for a session is the texts of its segment log
  joined with single spaces: the transcript is a function of the segment log alone. The
  service appends a segment only behind its test \<open>if transcript.text.strip()\<close>, and
  every such append, of a text that is not empty after stripping, preserves the equality.
\<close>

theorem transcript_is_joined_segment_log:
  assumes "sessions (run BasicRealtimeAudioService_init evs) sid = Some s"
  shows "get_session_status (run BasicRealtimeAudioService_init evs) sid now = Inr (get_status s now)
       \<and> st_full_transcription (get_status s now) = join SP (map seg_text (transcription_segments s))
       \<and> snd (get_live_transcription (run BasicRealtimeAudioService_init evs) sid) =
           Inr \<lparr>lt_session_id = sid, lt_is_recording = is_recording s,
                lt_new_segments = transcription_queue s,
                lt_full_transcription = join SP (map seg_text (transcription_segments s)),
                lt_segment_count = length (transcription_segments s)\<rparr>
       \<and> (\<forall>txt c t. strip txt \<noteq> [] \<longrightarrow>
            st_full_transcription (get_status (add_transcription_segment s txt c t) now)
              = join SP (map seg_text (transcription_segments (add_transcription_segment s txt c t))))"
proof -
  have "derived s"
    using run_derived [of BasicRealtimeAudioService_init evs sid s] assms
    by (simp add: BasicRealtimeAudioService_init_def)
  then have "strip (full_transcription s) = join SP (map seg_text (transcription_segments s))"
    and "\<And>txt c t. strip txt \<noteq> [] \<Longrightarrow> strip (full_transcription (add_transcription_segment s txt c t))
       = join SP (map seg_text (transcription_segments (add_transcription_segment s txt c t)))"
    using derived_reported derived_add by blast+
  then show ?thesis
    using assms by (simp add: get_session_status_def get_status_def get_live_transcription_Some)
qed

theorem transcript_is_joined_segment_log_witness:
  "sessions (run BasicRealtimeAudioService_init example_run) ''s1'' = Some example_result
   \<and> st_full_transcription (get_status example_result 9)
        = join SP (map seg_text (transcription_segments example_result))
   \<and> join SP (map seg_text (transcription_segments example_result)) = str ''hi there''"
proof -
  have reached: "sessions (run BasicRealtimeAudioService_init example_run) ''s1'' = Some example_result"
    by (simp add: example_run_def example_result_def BasicRealtimeAudioService_init_def
      create_session_def start_recording_def transcribe_audio_file_def
      BasicAudioSession_init_def BasicAudioSession_start_recording_def
      add_transcription_segment_def answers_def str_def strip_def py_isspace_def SP_def Let_def)
  have joined: "join SP (map seg_text (transcription_segments example_result)) = str ''hi there''"
    by (simp add: example_result_def str_def SP_def)
  from reached joined
    transcript_is_joined_segment_log [of example_run "''s1''" example_result 9]
  show ?thesis by simp
qed

section \<open>Delivery of segments to a poller\<close>

lemma interleave_append:
  "interleave svc sid (a @ b) =
     (let (svc1, polled1) = interleave svc sid a;
          (svc2, polled2) = interleave svc1 sid b
      in (svc2, polled1 @ polled2))"
  by (induction svc sid a rule: interleave.induct)
     (simp_all add: Let_def split: prod.splits option.splits)

lemma interleave_delivery:
  assumes "sessions svc sid = Some s"
  shows "\<exists>s' new. sessions (fst (interleave svc sid ios)) sid = Some s'
           \<and> transcription_segments s' = transcription_segments s @ new
           \<and> transcription_queue s @ new = concat (snd (interleave svc sid ios)) @ transcription_queue s'"
  using assms
proof (induction ios arbitrary: svc s)
  case Nil
  then show ?case by simp
next
  case (Cons io ios)
  show ?case
  proof (cases io)
    case (Append tx c now)
    let ?s1 = "add_transcription_segment s tx c now"
    let ?svc1 = "svc\<lparr>sessions := (sessions svc)(sid \<mapsto> ?s1)\<rparr>"
    have "sessions ?svc1 sid = Some ?s1" by simp
    from Cons.IH [OF this] obtain s' new where
      "sessions (fst (interleave ?svc1 sid ios)) sid = Some s'"
      "transcription_segments s' = transcription_segments ?s1 @ new"
      "transcription_queue ?s1 @ new = concat (snd (interleave ?svc1 sid ios)) @ transcription_queue s'"
      by blast
    then show ?thesis
      using Cons.prems Append by (simp add: add_transcription_segment_fields)
  next
    case (Upload f w now)
    from transcribe_audio_file_cases [OF Cons.prems, of f w now]
    obtain s1 where s1: "fst (transcribe_audio_file svc sid f w now) = svc\<lparr>sessions := (sessions svc)(sid \<mapsto> s1)\<rparr>"
      and alt: "s1 = s \<or> (\<exists>txt c. strip txt \<noteq> [] \<and> s1 = add_transcription_segment s txt c now)"
      by blast
    let ?svc1 = "svc\<lparr>sessions := (sessions svc)(sid \<mapsto> s1)\<rparr>"
    have "sessions ?svc1 sid = Some s1" by simp
    from Cons.IH [OF this] obtain s' new where
      "sessions (fst (interleave ?svc1 sid ios)) sid = Some s'"
      "transcription_segments s' = transcription_segments s1 @ new"
      "transcription_queue s1 @ new = concat (snd (interleave ?svc1 sid ios)) @ transcription_queue s'"
      by blast
    moreover have "\<exists>n1. transcription_segments s1 = transcription_segments s @ n1
                      \<and> transcription_queue s1 = transcription_queue s @ n1"
      using alt by (auto simp add: add_transcription_segment_fields)
    ultimately show ?thesis
      using Upload s1 by auto
  next
    case (Chunk d ok w now)
    from process_audio_data_cases [OF Cons.prems, of d ok w now]
    obtain s1 where s1: "fst (process_audio_data svc sid d ok w now) = svc\<lparr>sessions := (sessions svc)(sid \<mapsto> s1)\<rparr>"
      and alt: "s1 = add_audio_data s d \<or> s1 = clear_audio_buffer (add_audio_data s d)
               \<or> (\<exists>txt c. strip txt \<noteq> []
                     \<and> s1 = clear_audio_buffer (add_transcription_segment (add_audio_data s d) txt c now))"
      by blast
    let ?svc1 = "svc\<lparr>sessions := (sessions svc)(sid \<mapsto> s1)\<rparr>"
    have "sessions ?svc1 sid = Some s1" by simp
    from Cons.IH [OF this] obtain s' new where
      "sessions (fst (interleave ?svc1 sid ios)) sid = Some s'"
      "transcription_segments s' = transcription_segments s1 @ new"
      "transcription_queue s1 @ new = concat (snd (interleave ?svc1 sid ios)) @ transcription_queue s'"
      by blast
    moreover have "\<exists>n1. transcription_segments s1 = transcription_segments s @ n1
                      \<and> transcription_queue s1 = transcription_queue s @ n1"
      using alt
      by (auto simp add: add_transcription_segment_fields add_audio_data_def clear_audio_buffer_def)
    ultimately show ?thesis
      using Chunk s1 by auto
  next
    case Poll
    let ?s1 = "s\<lparr>transcription_queue := []\<rparr>"
    let ?svc1 = "svc\<lparr>sessions := (sessions svc)(sid \<mapsto> ?s1)\<rparr>"
    have "sessions ?svc1 sid = Some ?s1" by simp
    from Cons.IH [OF this] obtain s' new where
      "sessions (fst (interleave ?svc1 sid ios)) sid = Some s'"
      "transcription_segments s' = transcription_segments ?s1 @ new"
      "transcription_queue ?s1 @ new = concat (snd (interleave ?svc1 sid ios)) @ transcription_queue s'"
      by blast
    then show ?thesis
      using Cons.prems Poll
      by (simp add: get_live_transcription_Some new_segments_of_def case_prod_beta)
  qed
qed

text \<open>
  C7. Take any session and any interleaving of calls that may append a segment (a direct
  append, an uploaded file, an audio chunk) with polls. What the polls have returned so
  far, concatenated, followed by what still waits in the queue, is what was waiting at
  the start followed by the segments appended since, each once and in append order. The
  next poll returns exactly what waits and leaves the queue empty, so that a poll
  repeated at once returns no segment and no segment is ever returned twice. For a
  session of which nothing was delivered before (a fresh one has an empty log and an
  empty queue), the \<open>new_segments\<close> of all the polls, concatenated, are the whole segment
  log.
\<close>

theorem every_segment_is_polled_once:
  assumes "sessions svc sid = Some s"
  shows "\<exists>svc1 polled1 s1 svc2 s2 new.
           interleave svc sid ios = (svc1, polled1)
         \<and> sessions svc1 sid = Some s1
         \<and> transcription_segments s1 = transcription_segments s @ new
         \<and> concat polled1 @ transcription_queue s1 = transcription_queue s @ new
         \<and> interleave svc sid (ios @ [Poll]) = (svc2, polled1 @ [transcription_queue s1])
         \<and> sessions svc2 sid = Some s2
         \<and> transcription_segments s2 = transcription_segments s1
         \<and> transcription_queue s2 = []
         \<and> new_segments_of (snd (get_live_transcription svc2 sid)) = []
         \<and> (transcription_segments s = transcription_queue s
              \<longrightarrow> concat (polled1 @ [transcription_queue s1]) = transcription_segments s2)"
proof -
  obtain svc1 polled1 where run1: "interleave svc sid ios = (svc1, polled1)"
    by fastforce
  from interleave_delivery [OF assms, of ios] run1
  obtain s1 new where s1: "sessions svc1 sid = Some s1"
    and log: "transcription_segments s1 = transcription_segments s @ new"
    and queue: "transcription_queue s @ new = concat polled1 @ transcription_queue s1"
    by auto
  let ?s2 = "s1\<lparr>transcription_queue := []\<rparr>"
  let ?svc2 = "svc1\<lparr>sessions := (sessions svc1)(sid \<mapsto> ?s2)\<rparr>"
  have run2: "interleave svc sid (ios @ [Poll]) = (?svc2, polled1 @ [transcription_queue s1])"
    using run1 s1
    by (simp add: interleave_append get_live_transcription_Some new_segments_of_def)
  have s2: "sessions ?svc2 sid = Some ?s2" by simp
  have again: "new_segments_of (snd (get_live_transcription ?svc2 sid)) = []"
    by (simp add: get_live_transcription_Some new_segments_of_def)
  have fields: "transcription_segments ?s2 = transcription_segments s1"
    "transcription_queue ?s2 = []"
    by simp_all
  have whole: "transcription_segments s = transcription_queue s
              \<longrightarrow> concat (polled1 @ [transcription_queue s1]) = transcription_segments ?s2"
    using log queue by simp
  from queue have queue': "concat polled1 @ transcription_queue s1 = transcription_queue s @ new"
    by simp
  from run1 s1 log queue' run2 s2 fields again whole show ?thesis by blast
qed

theorem every_segment_is_polled_once_witness:
  "sessions fresh_service ''s1'' = Some (BasicAudioSession_init ''s1'' 0)
   \<and> transcription_segments (BasicAudioSession_init ''s1'' 0)
      = transcription_queue (BasicAudioSession_init ''s1'' 0)
   \<and> (\<exists>svc2 polled s2.
         interleave fresh_service ''s1'' (example_traffic @ [Poll]) = (svc2, polled)
       \<and> sessions svc2 ''s1'' = Some s2
       \<and> concat polled = transcription_segments s2
       \<and> new_segments_of (snd (get_live_transcription svc2 ''s1'')) = [])
   \<and> map (map seg_text) (snd (interleave fresh_service ''s1'' (example_traffic @ [Poll])))
      = [[str ''a''], [str ''b'', str ''c'']]"
proof -
  have fresh: "sessions fresh_service ''s1'' = Some (BasicAudioSession_init ''s1'' 0)"
    by (simp add: fresh_service_def create_session_def BasicRealtimeAudioService_init_def Let_def)
  have undelivered: "transcription_segments (BasicAudioSession_init ''s1'' 0)
      = transcription_queue (BasicAudioSession_init ''s1'' 0)"
    by (simp add: BasicAudioSession_init_def)
  have polls: "map (map seg_text) (snd (interleave fresh_service ''s1'' (example_traffic @ [Poll])))
      = [[str ''a''], [str ''b'', str ''c'']]"
    by (simp add: fresh_service_def example_traffic_def create_session_def
        BasicRealtimeAudioService_init_def BasicAudioSession_init_def
        add_transcription_segment_fields get_live_transcription_Some new_segments_of_def
        str_def strip_def py_isspace_def Let_def)
  from every_segment_is_polled_once [OF fresh, of example_traffic]
  obtain svc2 polled1 and s1 :: BasicAudioSession and s2 where
        a: "interleave fresh_service ''s1'' (example_traffic @ [Poll])
              = (svc2, polled1 @ [transcription_queue s1])"
    and b: "sessions svc2 ''s1'' = Some s2"
    and c: "transcription_segments (BasicAudioSession_init ''s1'' 0)
              = transcription_queue (BasicAudioSession_init ''s1'' 0)
            \<longrightarrow> concat (polled1 @ [transcription_queue s1]) = transcription_segments s2"
    and d: "new_segments_of (snd (get_live_transcription svc2 ''s1'')) = []"
    by blast
  from c undelivered have e: "concat (polled1 @ [transcription_queue s1]) = transcription_segments s2"
    by blast
  from a b e d have "\<exists>svc2 polled s2.
         interleave fresh_service ''s1'' (example_traffic @ [Poll]) = (svc2, polled)
       \<and> sessions svc2 ''s1'' = Some s2
       \<and> concat polled = transcription_segments s2
       \<and> new_segments_of (snd (get_live_transcription svc2 ''s1'')) = []"
    by blast
  with fresh undelivered polls show ?thesis by (intro conjI)
qed

section \<open>A collaborator that always fails\<close>

lemma transcribe_audio_file_failing:
  assumes "sessions svc sid = Some s" and "failing w"
  shows "\<exists>msg. transcribe_audio_file svc sid f w now = (svc, Transcribe_error msg)"
proof (cases f)
  case (Inl e)
  then show ?thesis using assms(1) by (cases e) (simp add: transcribe_audio_file_def)
next
  case (Inr content)
  from assms(2) obtain e where "w content = Inl e"
    by (auto simp add: failing_def isl_def)
  then show ?thesis using assms(1) Inr by (cases e) (simp add: transcribe_audio_file_def)
qed

lemma process_audio_data_failing:
  assumes "sessions svc sid = Some s" and "failing w"
  shows "\<exists>r. process_audio_data svc sid d ok w now
             = (svc\<lparr>sessions := (sessions svc)(sid \<mapsto>
                  s\<lparr>audio_buffer := unsent (audio_buffer s) [(d, ok, w, now)]\<rparr>)\<rparr>, r)
           \<and> accepted r
           \<and> (length (audio_buffer s @ d) < 96000 \<longrightarrow>
                r = Buffering (length (audio_buffer s @ d)) (real (length (audio_buffer s @ d)) / 32000))"
proof -
  let ?s1 = "add_audio_data s d"
  let ?svc1 = "svc\<lparr>sessions := (sessions svc)(sid \<mapsto> ?s1)\<rparr>"
  have size: "get_audio_buffer_size ?s1 = length (audio_buffer s @ d)"
    "audio_buffer ?s1 = audio_buffer s @ d"
    by (simp_all add: get_audio_buffer_size_def add_audio_data_def)
  have three: "real (get_audio_buffer_size ?s1) / (16000 * 2) \<ge> 3.0
                 \<longleftrightarrow> 96000 \<le> length (audio_buffer s @ d)"
  proof -
    have "real (get_audio_buffer_size ?s1) / (16000 * 2) \<ge> 3.0
            \<longleftrightarrow> real 96000 \<le> real (length (audio_buffer s @ d))"
      unfolding size by (simp add: field_simps del: length_append)
    then show ?thesis by (simp only: of_nat_le_iff)
  qed
  show ?thesis
  proof (cases "96000 \<le> length (audio_buffer s @ d) \<and> ok \<and> length (audio_buffer s @ d) + 36 < 2 ^ 32")
    case False
    then have none: "96000 \<le> length (audio_buffer s @ d)
        \<Longrightarrow> create_temp_wav_from_buffer ok (audio_buffer ?s1) = None"
      unfolding size by (intro wav_none) auto
    have "process_audio_data svc sid d ok w now
         = (?svc1, Buffering (get_audio_buffer_size ?s1) (real (get_audio_buffer_size ?s1) / (16000 * 2)))"
    proof (cases "96000 \<le> length (audio_buffer s @ d)")
      case True
      with none three show ?thesis using assms(1)
        by (simp add: process_audio_data_def Let_def del: length_append)
    next
      case False
      with three show ?thesis using assms(1)
        by (simp add: process_audio_data_def Let_def del: length_append)
    qed
    moreover have "unsent (audio_buffer s) [(d, ok, w, now)] = audio_buffer s @ d"
      using False by auto
    moreover have "?s1 = s\<lparr>audio_buffer := audio_buffer s @ d\<rparr>"
      by (simp add: add_audio_data_def)
    ultimately show ?thesis unfolding size by simp
  next
    case True
    then have "ok" "length (audio_buffer s @ d) + 36 < 2 ^ 32" by simp_all
    from wav_content [OF this]
    obtain temp where temp: "create_temp_wav_from_buffer ok (audio_buffer ?s1) = Some temp"
      unfolding size by blast
    have "sessions ?svc1 sid = Some ?s1" by simp
    from transcribe_audio_file_failing [OF this assms(2), of "Inr temp" now]
    obtain msg where "transcribe_audio_file ?svc1 sid (Inr temp) w now = (?svc1, Transcribe_error msg)"
      by blast
    then have "process_audio_data svc sid d ok w now
         = (svc\<lparr>sessions := (sessions svc)(sid \<mapsto> clear_audio_buffer ?s1)\<rparr>,
            Processed (Transcribe_error msg))"
      using assms(1) True temp three by (simp add: process_audio_data_def Let_def del: length_append)
    moreover have "unsent (audio_buffer s) [(d, ok, w, now)] = []"
      using True by simp
    moreover have "clear_audio_buffer ?s1 = s\<lparr>audio_buffer := []\<rparr>"
      by (simp add: add_audio_data_def clear_audio_buffer_def)
    ultimately show ?thesis using True by simp
  qed
qed

lemma unsent_short:
  "length (buf @ concat (map fst chunks)) < 96000 \<Longrightarrow> unsent buf chunks = buf @ concat (map fst chunks)"
proof (induction chunks arbitrary: buf)
  case Nil
  then show ?case by simp
next
  case (Cons c chunks)
  obtain d ok w t where c: "c = (d, ok, w, t)" by (cases c) auto
  from Cons.prems c have "length ((buf @ d) @ concat (map fst chunks)) < 96000" by simp
  from Cons.IH [OF this] Cons.prems c show ?case by simp
qed

lemma unsent_is_tail:
  "\<exists>k. unsent buf chunks = drop k (buf @ concat (map fst chunks))"
proof (induction chunks arbitrary: buf)
  case Nil
  show ?case by (auto intro: exI [of _ 0])
next
  case (Cons c chunks)
  obtain d ok w t where c: "c = (d, ok, w, t)" by (cases c) auto
  show ?case
  proof (cases "96000 \<le> length (buf @ d) \<and> ok \<and> length (buf @ d) + 36 < 2 ^ 32")
    case True
    from Cons.IH [of "[]"] obtain k where "unsent [] chunks = drop k (concat (map fst chunks))"
      by auto
    then have "unsent buf (c # chunks) = drop k (concat (map fst chunks))"
      using True c by simp
    also have "\<dots> = drop (length (buf @ d) + k) ((buf @ d) @ concat (map fst chunks))"
      by (simp only: drop_append drop_all length_append) simp
    also have "\<dots> = drop (length (buf @ d) + k) (buf @ concat (map fst (c # chunks)))"
      using c by simp
    finally show ?thesis by (rule exI)
  next
    case False
    from Cons.IH [of "buf @ d"] obtain k
      where "unsent (buf @ d) chunks = drop k ((buf @ d) @ concat (map fst chunks))"
      by auto
    then have "unsent buf (c # chunks) = drop k (buf @ concat (map fst (c # chunks)))"
      using False c by auto
    then show ?thesis by (rule exI)
  qed
qed

lemma feed_failing:
  assumes "sessions svc sid = Some s" and "list_all (\<lambda>(d, ok, w, t). failing w) chunks"
  shows "\<exists>svc' rs s'. feed svc sid chunks = (svc', rs) \<and> sessions svc' sid = Some s'
           \<and> length rs = length chunks \<and> list_all accepted rs
           \<and> s' = s\<lparr>audio_buffer := unsent (audio_buffer s) chunks\<rparr>
           \<and> (length (audio_buffer s @ concat (map fst chunks)) < 96000 \<longrightarrow>
                rs = buffering_answers (length (audio_buffer s)) chunks)"
  using assms
proof (induction chunks arbitrary: svc s)
  case Nil
  then show ?case by simp
next
  case (Cons c chunks)
  obtain d ok w t where c: "c = (d, ok, w, t)" by (cases c) auto
  with Cons.prems have "failing w" and rest: "list_all (\<lambda>(d, ok, w, t). failing w) chunks"
    by simp_all
  let ?s1 = "s\<lparr>audio_buffer := unsent (audio_buffer s) [(d, ok, w, t)]\<rparr>"
  let ?svc1 = "svc\<lparr>sessions := (sessions svc)(sid \<mapsto> ?s1)\<rparr>"
  from process_audio_data_failing [OF Cons.prems(1) \<open>failing w\<close>, of d ok t]
  obtain r where step: "process_audio_data svc sid d ok w t = (?svc1, r)"
    and r: "accepted r"
    and small: "length (audio_buffer s @ d) < 96000 \<longrightarrow>
                r = Buffering (length (audio_buffer s @ d)) (real (length (audio_buffer s @ d)) / 32000)"
    by blast
  have "sessions ?svc1 sid = Some ?s1" by simp
  from Cons.IH [OF this rest]
  obtain svc' rs s' where run: "feed ?svc1 sid chunks = (svc', rs)"
    and s': "sessions svc' sid = Some s'" "length rs = length chunks" "list_all accepted rs"
      "s' = ?s1\<lparr>audio_buffer := unsent (audio_buffer ?s1) chunks\<rparr>"
    and rs: "length (audio_buffer ?s1 @ concat (map fst chunks)) < 96000 \<longrightarrow>
                rs = buffering_answers (length (audio_buffer ?s1)) chunks"
    by blast
  have buf: "unsent (audio_buffer ?s1) chunks = unsent (audio_buffer s) (c # chunks)"
    using c by simp
  have feed: "feed svc sid (c # chunks) = (svc', r # rs)"
    using c step run by simp
  have answers: "length (audio_buffer s @ concat (map fst (c # chunks))) < 96000 \<longrightarrow>
                r # rs = buffering_answers (length (audio_buffer s)) (c # chunks)"
  proof
    assume less: "length (audio_buffer s @ concat (map fst (c # chunks))) < 96000"
    then have d: "length (audio_buffer s @ d) < 96000" using c by simp
    then have one: "audio_buffer ?s1 = audio_buffer s @ d" by simp
    from less c have "length (audio_buffer ?s1 @ concat (map fst chunks)) < 96000"
      unfolding one by simp
    with rs have "rs = buffering_answers (length (audio_buffer s @ d)) chunks"
      unfolding one by simp
    with small d c show "r # rs = buffering_answers (length (audio_buffer s)) (c # chunks)"
      by simp
  qed
  from feed s' buf answers r show ?case by simp
qed

lemma transcribe_audio_chunk_failing:
  assumes "failing w"
  shows "transcribe_audio_chunk svc session ok w now = session"
proof -
  have "\<And>x. isl (w x)" using assms by (simp add: failing_def)
  then show ?thesis
    by (simp add: transcribe_audio_chunk_def Let_def sum.case_eq_if)
qed

lemma process_final_audio_chunk_failing:
  assumes "failing w"
  shows "process_final_audio_chunk svc session ok w = session"
proof -
  have "\<And>x. isl (w x)" using assms by (simp add: failing_def)
  then show ?thesis
    by (simp add: process_final_audio_chunk_def Let_def sum.case_eq_if)
qed

lemma level_after_write:
  "is_full (AudioBuffer_write b d) \<or> buffer_size (AudioBuffer_write b d) \<noteq> 0"
  by (auto simp add: AudioBuffer_write_def Let_def)

lemma get_buffer_level_after_write:
  assumes "rt_audio_buffer session = AudioBuffer_write b d"
  shows "\<exists>level. get_buffer_level session = Inr level"
  using level_after_write [of b d] assms by (auto simp add: get_buffer_level_def Let_def)

lemma process_audio_chunk_failing:
  assumes "rt_sessions svc sid = Some session" and "rt_is_recording session" and "failing w"
  shows "\<exists>session' level.
           process_audio_chunk svc sid (Inr samples) ok w now
             = (svc\<lparr>rt_sessions := (rt_sessions svc)(sid \<mapsto> session')\<rparr>, Chunk_success level now)
         \<and> rt_audio_buffer session' = AudioBuffer_write (rt_audio_buffer session) samples
         \<and> rt_transcription_segments session' = rt_transcription_segments session
         \<and> rt_full_transcription session' = rt_full_transcription session
         \<and> rt_transcription_queue session' = rt_transcription_queue session
         \<and> rt_final_transcription session' = rt_final_transcription session
         \<and> rt_is_recording session'"
proof -
  let ?s1 = "session\<lparr>rt_audio_buffer := AudioBuffer_write (rt_audio_buffer session) samples\<rparr>"
  show ?thesis
  proof (cases "now - rt_last_transcription_time ?s1 \<ge> chunk_duration svc")
    case True
    let ?s2 = "?s1\<lparr>rt_last_transcription_time := now\<rparr>"
    have "rt_audio_buffer ?s2 = AudioBuffer_write (rt_audio_buffer session) samples" by simp
    from get_buffer_level_after_write [OF this]
    obtain level where level: "get_buffer_level ?s2 = Inr level" by blast
    have "process_audio_chunk svc sid (Inr samples) ok w now
            = (svc\<lparr>rt_sessions := (rt_sessions svc)(sid \<mapsto> ?s2)\<rparr>, Chunk_success level now)"
      using assms level True
      by (simp add: process_audio_chunk_def Let_def transcribe_audio_chunk_failing)
    then show ?thesis using assms(2) by force
  next
    case False
    have "rt_audio_buffer ?s1 = AudioBuffer_write (rt_audio_buffer session) samples" by simp
    from get_buffer_level_after_write [OF this]
    obtain level where level: "get_buffer_level ?s1 = Inr level" by blast
    have "process_audio_chunk svc sid (Inr samples) ok w now
            = (svc\<lparr>rt_sessions := (rt_sessions svc)(sid \<mapsto> ?s1)\<rparr>, Chunk_success level now)"
      using assms level False
      by (simp add: process_audio_chunk_def Let_def)
    then show ?thesis using assms(2) by force
  qed
qed

lemma rt_feed_failing:
  assumes "rt_sessions svc sid = Some session" and "rt_is_recording session"
    and "list_all (\<lambda>(d, ok, w, t). failing w) chunks"
  shows "\<exists>svc' rs session'. rt_feed svc sid chunks = (svc', rs)
           \<and> rt_sessions svc' sid = Some session'
           \<and> rt_sample_rate svc' = rt_sample_rate svc
           \<and> buffer_duration svc' = buffer_duration svc
           \<and> length rs = length chunks \<and> list_all chunk_ok rs
           \<and> rt_audio_buffer session' = writes (rt_audio_buffer session) (map fst chunks)
           \<and> rt_transcription_segments session' = rt_transcription_segments session
           \<and> rt_full_transcription session' = rt_full_transcription session
           \<and> rt_transcription_queue session' = rt_transcription_queue session
           \<and> rt_final_transcription session' = rt_final_transcription session
           \<and> rt_is_recording session'"
  using assms
proof (induction chunks arbitrary: svc session)
  case Nil
  then show ?case by simp
next
  case (Cons c chunks)
  obtain d ok w t where c: "c = (d, ok, w, t)" by (cases c) auto
  with Cons.prems have "failing w" and rest: "list_all (\<lambda>(d, ok, w, t). failing w) chunks"
    by simp_all
  from process_audio_chunk_failing [OF Cons.prems(1,2) \<open>failing w\<close>, of d ok t]
  obtain s1 level where
    step: "process_audio_chunk svc sid (Inr d) ok w t
             = (svc\<lparr>rt_sessions := (rt_sessions svc)(sid \<mapsto> s1)\<rparr>, Chunk_success level t)"
    and s1: "rt_audio_buffer s1 = AudioBuffer_write (rt_audio_buffer session) d"
      "rt_transcription_segments s1 = rt_transcription_segments session"
      "rt_full_transcription s1 = rt_full_transcription session"
      "rt_transcription_queue s1 = rt_transcription_queue session"
      "rt_final_transcription s1 = rt_final_transcription session"
    and rec: "rt_is_recording s1"
    by blast
  let ?svc1 = "svc\<lparr>rt_sessions := (rt_sessions svc)(sid \<mapsto> s1)\<rparr>"
  have "rt_sessions ?svc1 sid = Some s1" by simp
  from Cons.IH [OF this rec rest]
  obtain svc' rs session' where run: "rt_feed ?svc1 sid chunks = (svc', rs)"
    and after: "rt_sessions svc' sid = Some session'"
      "rt_sample_rate svc' = rt_sample_rate ?svc1"
      "buffer_duration svc' = buffer_duration ?svc1"
      "length rs = length chunks" "list_all chunk_ok rs"
      "rt_audio_buffer session' = writes (rt_audio_buffer s1) (map fst chunks)"
      "rt_transcription_segments session' = rt_transcription_segments s1"
      "rt_full_transcription session' = rt_full_transcription s1"
      "rt_transcription_queue session' = rt_transcription_queue s1"
      "rt_final_transcription session' = rt_final_transcription s1"
      "rt_is_recording session'"
    by blast
  have "rt_feed svc sid (c # chunks) = (svc', Chunk_success level t # rs)"
    using c step run by simp
  then show ?case using after s1 c by simp
qed

lemma rt_stop_failing:
  assumes "rt_sessions svc sid = Some session" and "failing w"
  shows "rt_manager_stop_recording svc sid ok w now
           = (svc\<lparr>rt_sessions := (rt_sessions svc)(sid \<mapsto> session\<lparr>rt_is_recording := False\<rparr>)\<rparr>,
              Recording_stopped sid
                (case rt_final_transcription session of
                   Some final \<Rightarrow> Some final
                 | None \<Rightarrow> Some (strip (rt_full_transcription session))) now)"
  using assms
  by (simp add: rt_manager_stop_recording_def rt_stop_recording_def Let_def
      process_final_audio_chunk_failing rt_get_final_transcription_def split: option.splits)

lemma failing_down: "failing down"
  by (simp add: failing_def down_def)

text \<open>
  C5. While the collaborator raises on every request, every audio chunk sent to a
  session is answered without an error: by the basic service with \<open>buffering\<close> or with
  \<open>processed\<close> carrying the collaborator's error, by the ring-buffer service (for a
  recording session) with \<open>success\<close>. The exception never leaves the service. The
  session is left as it was except for its audio buffer: segment log, full transcription,
  delivery queue and recording flag are unchanged. The audio goes into the buffer. In the
  basic service the buffer afterwards is exactly \<open>unsent\<close> of the stream: the chunks
  appended in order, emptied each time three seconds had gathered and were handed to the
  collaborator; so it is a tail of the stream, and while fewer than three seconds were
  sent it is the whole stream, each chunk answered with \<open>buffering\<close> and the number of
  bytes held. In the ring-buffer service every chunk is written to the ring buffer. For a
  session that had no segment and no transcript, the stop that follows is answered with
  \<open>recording_stopped\<close> and the empty final transcription, and the status shows a segment
  count of 0.
\<close>

theorem failing_collaborator_is_absorbed:
  "(sessions svc sid = Some s \<and> list_all (\<lambda>(d, ok, w, t). failing w) chunks \<longrightarrow>
      (\<exists>svc' rs s'. feed svc sid chunks = (svc', rs) \<and> sessions svc' sid = Some s'
         \<and> length rs = length chunks \<and> list_all accepted rs
         \<and> transcription_segments s' = transcription_segments s
         \<and> full_transcription s' = full_transcription s
         \<and> transcription_queue s' = transcription_queue s
         \<and> is_recording s' = is_recording s
         \<and> s' = s\<lparr>audio_buffer := unsent (audio_buffer s) chunks\<rparr>
         \<and> audio_buffer s' = unsent (audio_buffer s) chunks
         \<and> (\<exists>k. audio_buffer s' = drop k (audio_buffer s @ concat (map fst chunks)))
         \<and> (length (audio_buffer s @ concat (map fst chunks)) < 96000 \<longrightarrow>
              audio_buffer s' = audio_buffer s @ concat (map fst chunks)
              \<and> rs = buffering_answers (length (audio_buffer s)) chunks)
         \<and> (transcription_segments s = [] \<and> full_transcription s = [] \<longrightarrow>
              snd (manager_stop_recording \<lparr>audio_service = svc', active_sessions = A\<rparr> sid t)
                = Recording_stopped sid (Some []) t
            \<and> (\<exists>st. get_session_status
                       (audio_service (fst (manager_stop_recording
                          \<lparr>audio_service = svc', active_sessions = A\<rparr> sid t))) sid t = Inr st
                   \<and> st_segment_count st = 0 \<and> st_full_transcription st = []))))
   \<and> (rt_sessions rsvc sid = Some session \<and> rt_is_recording session
        \<and> list_all (\<lambda>(d, ok, w, t). failing w) rchunks \<and> failing wfinal \<longrightarrow>
      (\<exists>rsvc' rs session'. rt_feed rsvc sid rchunks = (rsvc', rs)
         \<and> rt_sessions rsvc' sid = Some session'
         \<and> length rs = length rchunks \<and> list_all chunk_ok rs
         \<and> rt_audio_buffer session' = writes (rt_audio_buffer session) (map fst rchunks)
         \<and> rt_transcription_segments session' = rt_transcription_segments session
         \<and> rt_full_transcription session' = rt_full_transcription session
         \<and> rt_transcription_queue session' = rt_transcription_queue session
         \<and> rt_final_transcription session' = rt_final_transcription session
         \<and> rt_is_recording session'
         \<and> (rt_transcription_segments session = [] \<and> rt_full_transcription session = []
              \<and> rt_final_transcription session = None \<longrightarrow>
              rt_manager_stop_recording rsvc' sid ok wfinal t
                = (rsvc'\<lparr>rt_sessions := (rt_sessions rsvc')(sid \<mapsto> session'\<lparr>rt_is_recording := False\<rparr>)\<rparr>,
                   Recording_stopped sid (Some []) t))))"
proof (intro conjI impI)
  assume a: "sessions svc sid = Some s \<and> list_all (\<lambda>(d, ok, w, t). failing w) chunks"
  then have "sessions svc sid = Some s" and "list_all (\<lambda>(d, ok, w, t). failing w) chunks"
    by simp_all
  from feed_failing [OF this]
  obtain svc' rs and s' :: BasicAudioSession where run: "feed svc sid chunks = (svc', rs)"
    and s': "sessions svc' sid = Some s'"
    and rest: "length rs = length chunks" "list_all accepted rs"
    and exact: "s' = s\<lparr>audio_buffer := unsent (audio_buffer s) chunks\<rparr>"
    and rs: "length (audio_buffer s @ concat (map fst chunks)) < 96000 \<longrightarrow>
               rs = buffering_answers (length (audio_buffer s)) chunks"
    by blast
  from exact have same: "transcription_segments s' = transcription_segments s"
      "full_transcription s' = full_transcription s"
      "transcription_queue s' = transcription_queue s"
      "is_recording s' = is_recording s"
    and buf: "audio_buffer s' = unsent (audio_buffer s) chunks"
    by simp_all
  have tail: "\<exists>k. audio_buffer s' = drop k (audio_buffer s @ concat (map fst chunks))"
    unfolding buf by (rule unsent_is_tail)
  have short: "length (audio_buffer s @ concat (map fst chunks)) < 96000 \<longrightarrow>
              audio_buffer s' = audio_buffer s @ concat (map fst chunks)
              \<and> rs = buffering_answers (length (audio_buffer s)) chunks"
    using rs unsent_short [of "audio_buffer s" chunks] unfolding buf by blast
  have stop: "transcription_segments s = [] \<and> full_transcription s = [] \<longrightarrow>
              snd (manager_stop_recording \<lparr>audio_service = svc', active_sessions = A\<rparr> sid t)
                = Recording_stopped sid (Some []) t
            \<and> (\<exists>st. get_session_status
                       (audio_service (fst (manager_stop_recording
                          \<lparr>audio_service = svc', active_sessions = A\<rparr> sid t))) sid t = Inr st
                   \<and> st_segment_count st = 0 \<and> st_full_transcription st = [])"
    using s' same(1,2)
    by (simp add: manager_stop_recording_def stop_recording_def get_final_transcription_def
        get_session_status_def get_status_def BasicAudioSession_stop_recording_def)
  show "\<exists>svc' rs s'. feed svc sid chunks = (svc', rs) \<and> sessions svc' sid = Some s'
         \<and> length rs = length chunks \<and> list_all accepted rs
         \<and> transcription_segments s' = transcription_segments s
         \<and> full_transcription s' = full_transcription s
         \<and> transcription_queue s' = transcription_queue s
         \<and> is_recording s' = is_recording s
         \<and> s' = s\<lparr>audio_buffer := unsent (audio_buffer s) chunks\<rparr>
         \<and> audio_buffer s' = unsent (audio_buffer s) chunks
         \<and> (\<exists>k. audio_buffer s' = drop k (audio_buffer s @ concat (map fst chunks)))
         \<and> (length (audio_buffer s @ concat (map fst chunks)) < 96000 \<longrightarrow>
              audio_buffer s' = audio_buffer s @ concat (map fst chunks)
              \<and> rs = buffering_answers (length (audio_buffer s)) chunks)
         \<and> (transcription_segments s = [] \<and> full_transcription s = [] \<longrightarrow>
              snd (manager_stop_recording \<lparr>audio_service = svc', active_sessions = A\<rparr> sid t)
                = Recording_stopped sid (Some []) t
            \<and> (\<exists>st. get_session_status
                       (audio_service (fst (manager_stop_recording
                          \<lparr>audio_service = svc', active_sessions = A\<rparr> sid t))) sid t = Inr st
                   \<and> st_segment_count st = 0 \<and> st_full_transcription st = []))"
    using run s' rest same exact buf tail short stop by blast
next
  assume a: "rt_sessions rsvc sid = Some session \<and> rt_is_recording session
        \<and> list_all (\<lambda>(d, ok, w, t). failing w) rchunks \<and> failing wfinal"
  then have "rt_sessions rsvc sid = Some session" "rt_is_recording session"
    "list_all (\<lambda>(d, ok, w, t). failing w) rchunks" and final: "failing wfinal"
    by simp_all
  from rt_feed_failing [OF this(1,2,3)]
  obtain rsvc' rs session' where run: "rt_feed rsvc sid rchunks = (rsvc', rs)"
    and s': "rt_sessions rsvc' sid = Some session'"
    and rest: "length rs = length rchunks" "list_all chunk_ok rs"
      "rt_audio_buffer session' = writes (rt_audio_buffer session) (map fst rchunks)"
      "rt_transcription_segments session' = rt_transcription_segments session"
      "rt_full_transcription session' = rt_full_transcription session"
      "rt_transcription_queue session' = rt_transcription_queue session"
      "rt_final_transcription session' = rt_final_transcription session"
      "rt_is_recording session'"
    by blast
  have stop: "rt_transcription_segments session = [] \<and> rt_full_transcription session = []
              \<and> rt_final_transcription session = None \<longrightarrow>
              rt_manager_stop_recording rsvc' sid ok wfinal t
                = (rsvc'\<lparr>rt_sessions := (rt_sessions rsvc')(sid \<mapsto> session'\<lparr>rt_is_recording := False\<rparr>)\<rparr>,
                   Recording_stopped sid (Some []) t)"
    using rt_stop_failing [OF s' final, of ok t] rest(5,7) by simp
  show "\<exists>rsvc' rs session'. rt_feed rsvc sid rchunks = (rsvc', rs)
         \<and> rt_sessions rsvc' sid = Some session'
         \<and> length rs = length rchunks \<and> list_all chunk_ok rs
         \<and> rt_audio_buffer session' = writes (rt_audio_buffer session) (map fst rchunks)
         \<and> rt_transcription_segments session' = rt_transcription_segments session
         \<and> rt_full_transcription session' = rt_full_transcription session
         \<and> rt_transcription_queue session' = rt_transcription_queue session
         \<and> rt_final_transcription session' = rt_final_transcription session
         \<and> rt_is_recording session'
         \<and> (rt_transcription_segments session = [] \<and> rt_full_transcription session = []
              \<and> rt_final_transcription session = None \<longrightarrow>
              rt_manager_stop_recording rsvc' sid ok wfinal t
                = (rsvc'\<lparr>rt_sessions := (rt_sessions rsvc')(sid \<mapsto> session'\<lparr>rt_is_recording := False\<rparr>)\<rparr>,
                   Recording_stopped sid (Some []) t))"
    using run s' rest stop by blast
qed

theorem failing_collaborator_is_absorbed_witness:
  "sessions fresh_service ''s1'' = Some (BasicAudioSession_init ''s1'' 0)
   \<and> list_all (\<lambda>(d, ok, w, t). failing w) example_chunks
   \<and> list_all (\<lambda>(d, ok, w, t). failing w) example_long_chunks
   \<and> transcription_segments (BasicAudioSession_init ''s1'' 0) = []
   \<and> full_transcription (BasicAudioSession_init ''s1'' 0) = []
   \<and> length (audio_buffer (BasicAudioSession_init ''s1'' 0) @ concat (map fst example_chunks)) < 96000
   \<and> (\<exists>svc' rs s'. feed fresh_service ''s1'' example_chunks = (svc', rs)
         \<and> sessions svc' ''s1'' = Some s'
         \<and> rs = [Buffering 2 (2 / 32000), Buffering 3 (3 / 32000)]
         \<and> audio_buffer s' = [1, 2, 3]
         \<and> s' = (BasicAudioSession_init ''s1'' 0)\<lparr>audio_buffer := [1, 2, 3]\<rparr>
         \<and> transcription_segments s' = []
         \<and> snd (manager_stop_recording \<lparr>audio_service = svc', active_sessions = {''s1''}\<rparr> ''s1'' 3)
              = Recording_stopped ''s1'' (Some []) 3)
   \<and> (\<exists>svc' rs s'. feed fresh_service ''s1'' example_long_chunks = (svc', rs)
         \<and> sessions svc' ''s1'' = Some s'
         \<and> length rs = 2 \<and> list_all accepted rs
         \<and> audio_buffer s' = [7]
         \<and> transcription_segments s' = [])
   \<and> rt_sessions rt_example_service ''s1'' = Some rt_example_session
   \<and> rt_is_recording rt_example_session
   \<and> list_all (\<lambda>(d, ok, w, t). failing w) rt_example_chunks
   \<and> failing (down :: sample list whisper)
   \<and> rt_transcription_segments rt_example_session = []
   \<and> rt_full_transcription rt_example_session = []
   \<and> rt_final_transcription rt_example_session = None
   \<and> (\<exists>rsvc' rs session'. rt_feed rt_example_service ''s1'' rt_example_chunks = (rsvc', rs)
         \<and> rt_sessions rsvc' ''s1'' = Some session'
         \<and> list_all chunk_ok rs
         \<and> rt_audio_buffer session' = AudioBuffer_write (AudioBuffer_init 16000 30) [0.5, 0.25]
         \<and> snd (rt_manager_stop_recording rsvc' ''s1'' True down 3)
              = Recording_stopped ''s1'' (Some []) 3)"
proof -
  let ?s0 = "BasicAudioSession_init ''s1'' 0"
  have h1: "sessions fresh_service ''s1'' = Some ?s0"
    by (simp add: fresh_service_def create_session_def BasicRealtimeAudioService_init_def Let_def)
  have h2: "list_all (\<lambda>(d, ok, w, t). failing w) example_chunks"
    by (simp add: example_chunks_def failing_down)
  have h2': "list_all (\<lambda>(d, ok, w, t). failing w) example_long_chunks"
    by (simp add: example_long_chunks_def failing_down)
  have h3: "transcription_segments ?s0 = []" "full_transcription ?s0 = []"
    by (simp_all add: BasicAudioSession_init_def)
  have h4: "length (audio_buffer ?s0 @ concat (map fst example_chunks)) < 96000"
    by (simp add: BasicAudioSession_init_def example_chunks_def)
  have e1: "audio_buffer ?s0 @ concat (map fst example_chunks) = [1, 2, 3]"
    by (simp add: BasicAudioSession_init_def example_chunks_def)
  have e2: "buffering_answers (length (audio_buffer ?s0)) example_chunks
              = [Buffering 2 (2 / 32000), Buffering 3 (3 / 32000)]"
    by (simp add: BasicAudioSession_init_def example_chunks_def)
  have e3: "unsent (audio_buffer ?s0) example_chunks = [1, 2, 3]"
    by (simp add: BasicAudioSession_init_def example_chunks_def)
  have e4: "unsent (audio_buffer ?s0) example_long_chunks = [7]"
    by (simp add: BasicAudioSession_init_def example_long_chunks_def)
  have e5: "length example_long_chunks = 2" by (simp add: example_long_chunks_def)
  have r1: "rt_sessions rt_example_service ''s1'' = Some rt_example_session"
    by (simp add: rt_example_service_def rt_example_session_def rt_start_recording_def
        rt_create_session_def RealtimeAudioService_init_def Let_def)
  have r2: "rt_is_recording rt_example_session"
    "rt_transcription_segments rt_example_session = []"
    "rt_full_transcription rt_example_session = []"
    "rt_final_transcription rt_example_session = None"
    by (simp_all add: rt_example_session_def)
  have r3: "list_all (\<lambda>(d, ok, w, t). failing w) rt_example_chunks"
    by (simp add: rt_example_chunks_def failing_down)
  have r4: "writes (rt_audio_buffer rt_example_session) (map fst rt_example_chunks)
              = AudioBuffer_write (AudioBuffer_init 16000 30) [0.5, 0.25]"
    by (simp add: rt_example_chunks_def rt_example_session_def)
  note inst = failing_collaborator_is_absorbed
    [where svc = fresh_service and sid = "''s1''" and s = ?s0
       and chunks = example_chunks and A = "{''s1''}" and t = 3
       and rsvc = rt_example_service and session = rt_example_session
       and rchunks = rt_example_chunks and wfinal = down and ok = True]
  note inst_long = failing_collaborator_is_absorbed
    [where svc = fresh_service and sid = "''s1''" and s = ?s0
       and chunks = example_long_chunks and A = "{''s1''}" and t = 3
       and rsvc = rt_example_service and session = rt_example_session
       and rchunks = rt_example_chunks and wfinal = down and ok = True]
  from inst h1 h2 h3 h4
  obtain svc' rs and s' :: BasicAudioSession where
    "feed fresh_service ''s1'' example_chunks = (svc', rs)" "sessions svc' ''s1'' = Some s'"
    "transcription_segments s' = transcription_segments ?s0"
    "s' = ?s0\<lparr>audio_buffer := unsent (audio_buffer ?s0) example_chunks\<rparr>"
    "audio_buffer s' = audio_buffer ?s0 @ concat (map fst example_chunks)"
    "rs = buffering_answers (length (audio_buffer ?s0)) example_chunks"
    "snd (manager_stop_recording \<lparr>audio_service = svc', active_sessions = {''s1''}\<rparr> ''s1'' 3)
       = Recording_stopped ''s1'' (Some []) 3"
    by blast
  then have basic: "\<exists>svc' rs s'. feed fresh_service ''s1'' example_chunks = (svc', rs)
         \<and> sessions svc' ''s1'' = Some s'
         \<and> rs = [Buffering 2 (2 / 32000), Buffering 3 (3 / 32000)]
         \<and> audio_buffer s' = [1, 2, 3]
         \<and> s' = ?s0\<lparr>audio_buffer := [1, 2, 3]\<rparr>
         \<and> transcription_segments s' = []
         \<and> snd (manager_stop_recording \<lparr>audio_service = svc', active_sessions = {''s1''}\<rparr> ''s1'' 3)
              = Recording_stopped ''s1'' (Some []) 3"
    unfolding e1 e2 e3 h3 by blast
  from inst_long h1 h2'
  obtain svc2 rs2 and s2 :: BasicAudioSession where
    "feed fresh_service ''s1'' example_long_chunks = (svc2, rs2)" "sessions svc2 ''s1'' = Some s2"
    "length rs2 = length example_long_chunks" "list_all accepted rs2"
    "audio_buffer s2 = unsent (audio_buffer ?s0) example_long_chunks"
    "transcription_segments s2 = transcription_segments ?s0"
    by blast
  then have long: "\<exists>svc' rs s'. feed fresh_service ''s1'' example_long_chunks = (svc', rs)
         \<and> sessions svc' ''s1'' = Some s'
         \<and> length rs = 2 \<and> list_all accepted rs
         \<and> audio_buffer s' = [7]
         \<and> transcription_segments s' = []"
    unfolding e4 e5 h3 by blast
  from inst r1 r2 r3 failing_down [where 'a = "sample list"]
  obtain rsvc' rrs session' where
    "rt_feed rt_example_service ''s1'' rt_example_chunks = (rsvc', rrs)"
    "rt_sessions rsvc' ''s1'' = Some session'" "list_all chunk_ok rrs"
    "rt_audio_buffer session' = writes (rt_audio_buffer rt_example_session) (map fst rt_example_chunks)"
    "rt_manager_stop_recording rsvc' ''s1'' True down 3
       = (rsvc'\<lparr>rt_sessions := (rt_sessions rsvc')(''s1'' \<mapsto> session'\<lparr>rt_is_recording := False\<rparr>)\<rparr>,
          Recording_stopped ''s1'' (Some []) 3)"
    by blast
  then have ring: "\<exists>rsvc' rs session'. rt_feed rt_example_service ''s1'' rt_example_chunks = (rsvc', rs)
         \<and> rt_sessions rsvc' ''s1'' = Some session'
         \<and> list_all chunk_ok rs
         \<and> rt_audio_buffer session' = AudioBuffer_write (AudioBuffer_init 16000 30) [0.5, 0.25]
         \<and> snd (rt_manager_stop_recording rsvc' ''s1'' True down 3)
              = Recording_stopped ''s1'' (Some []) 3"
    unfolding r4 by (metis snd_conv)
  from h1 h2 h2' h3 h4 basic long r1 r2 r3 failing_down [where 'a = "sample list"] ring
  show ?thesis by (intro conjI)
qed

section \<open>Example sessions of the ring-buffer service\<close>

lemma AudioBuffer_init_service:
  "AudioBuffer_init 16000 30 =
     \<lparr>sample_rate = 16000, buffer_size = 480000, buffer = replicate 480000 0,
      write_index = 0, is_full = False\<rparr>"
  by (simp add: AudioBuffer_init_def py_int_def)

lemma rt_example_service_session:
  "rt_sessions rt_example_service ''s1'' = Some rt_example_session"
  by (simp add: rt_example_service_def rt_example_session_def rt_start_recording_def
      rt_create_session_def RealtimeAudioService_init_def Let_def)

lemma rt_example_service_config:
  "rt_sample_rate rt_example_service = 16000"
  "chunk_duration rt_example_service = 3"
  "buffer_duration rt_example_service = 30"
  by (simp_all add: rt_example_service_def rt_start_recording_def
      rt_create_session_def RealtimeAudioService_init_def Let_def)

lemma short_window:
  "AudioBuffer_read_last_seconds (AudioBuffer_write (AudioBuffer_init 16000 30) [0.5, 0.25]) 30
     = [0.5, 0.25]"
  by (simp add: AudioBuffer_init_service AudioBuffer_write_def AudioBuffer_read_last_seconds_def
      py_int_def Let_def)

lemma long_window:
  "AudioBuffer_read_last_seconds
     (AudioBuffer_write (AudioBuffer_init 16000 30) (replicate 8000 0.5)) 30
     = replicate 8000 0.5"
  by (simp add: AudioBuffer_init_service AudioBuffer_write_def AudioBuffer_read_last_seconds_def
      py_int_def Let_def)

lemma level_short:
  "get_buffer_level rt_short_session = Inr (2 / 480000)"
  by (simp add: rt_short_session_def rt_example_session_def get_buffer_level_def
      AudioBuffer_init_service AudioBuffer_write_def Let_def)

lemma rt_short_service_eq:
  "rt_short_service = rt_example_service\<lparr>rt_sessions := (rt_sessions rt_example_service)(''s1'' \<mapsto> rt_short_session)\<rparr>"
  using level_short
  by (simp add: rt_short_service_def process_audio_chunk_def rt_example_service_session
      rt_example_service_config Let_def)
     (simp add: rt_short_session_def rt_example_session_def)

lemma level_long:
  "get_buffer_level rt_long_session = Inr (8000 / 480000)"
  by (simp add: rt_long_session_def rt_example_session_def get_buffer_level_def
      AudioBuffer_init_service AudioBuffer_write_def Let_def)

lemma rt_long_service_eq:
  "rt_long_service = rt_example_service\<lparr>rt_sessions := (rt_sessions rt_example_service)(''s1'' \<mapsto> rt_long_session)\<rparr>"
  using level_long
  by (simp add: rt_long_service_def process_audio_chunk_def rt_example_service_session
      rt_example_service_config Let_def)
     (simp add: rt_long_session_def rt_example_session_def)

lemma full_buffer:
  "AudioBuffer_write (AudioBuffer_init 16000 30) (0.25 # replicate 480000 0.5)
     = \<lparr>sample_rate = 16000, buffer_size = 480000, buffer = replicate 480000 0.5,
        write_index = 0, is_full = True\<rparr>"
  by (simp add: AudioBuffer_init_service AudioBuffer_write_def Let_def)

lemma level_full:
  "get_buffer_level rt_full_session = Inr 1"
  using full_buffer by (simp add: rt_full_session_def get_buffer_level_def Let_def)

lemma rt_full_service_eq:
  "rt_full_service = rt_example_service\<lparr>rt_sessions := (rt_sessions rt_example_service)(''s1'' \<mapsto> rt_full_session)\<rparr>"
  using level_full
  by (simp add: rt_full_service_def process_audio_chunk_def rt_example_service_session
      rt_example_service_config Let_def)
     (simp add: rt_full_session_def rt_example_session_def)

section \<open>The ring buffer in general\<close>

lemma lastn_append_short:
  assumes "n \<le> length zs" and "length d \<le> n"
  shows "lastn n (zs @ d) = drop (length d) (lastn n zs) @ d"
proof -
  have "length zs + length d - n = length d + (length zs - n)" using assms by simp
  moreover have "length zs + length d - n \<le> length zs" using assms by simp
  ultimately show ?thesis by (simp add: lastn_def)
qed

lemma lastn_all: "n \<le> length d \<Longrightarrow> lastn n (zs @ d) = lastn n d"
  by (simp add: lastn_def)

lemma lastn_length [simp]: "length (lastn n xs) = min n (length xs)"
  by (simp add: lastn_def)

lemma ring_inv_init:
  assumes "0 < nat (py_int (real rate * dur))"
  shows "ring_inv (AudioBuffer_init rate dur) []"
  using assms by (simp add: ring_inv_def AudioBuffer_init_def Let_def lastn_def)

lemma write_oversize:
  assumes "ring_inv b h" and "buffer_size b \<le> length d"
  shows "ring_inv (AudioBuffer_write b d) (h @ d)"
proof -
  let ?n = "buffer_size b"
  have w: "AudioBuffer_write b d = b\<lparr>buffer := drop (length d - ?n) d, write_index := 0, is_full := True\<rparr>"
    using assms by (simp add: AudioBuffer_write_def ring_inv_def)
  have "lastn ?n (replicate ?n 0 @ h @ d) = lastn ?n d"
    using assms(2) lastn_all [of ?n d "replicate ?n 0 @ h"] by simp
  then show ?thesis
    using assms by (simp add: w ring_inv_def lastn_def)
qed

lemma write_fits:
  assumes "ring_inv b h" and "length d < buffer_size b"
    and "write_index b + length d \<le> buffer_size b"
  shows "ring_inv (AudioBuffer_write b d) (h @ d)"
proof -
  let ?n = "buffer_size b" and ?w = "write_index b" and ?buf = "buffer b"
  let ?e = "?w + length d"
  let ?buf' = "take ?w ?buf @ d @ drop ?e ?buf"
  from assms(1) have len: "length ?buf = ?n" and pos: "0 < ?n" and wlt: "?w < ?n"
    and wh: "?w \<le> length h"
    and rot: "drop ?w ?buf @ take ?w ?buf = lastn ?n (replicate ?n 0 @ h)"
    and full: "is_full b \<longrightarrow> ?n \<le> length h"
    and notfull: "\<not> is_full b \<longrightarrow> ?w = length h mod ?n"
    by (simp_all add: ring_inv_def)
  have w: "AudioBuffer_write b d = b\<lparr>buffer := ?buf', write_index := ?e mod ?n\<rparr>"
    using assms(2,3) by (simp add: AudioBuffer_write_def Let_def)
  have len': "length ?buf' = ?n" using len assms(3) by simp
  have target: "lastn ?n (replicate ?n 0 @ h @ d) = drop (length d) (drop ?w ?buf @ take ?w ?buf) @ d"
    using lastn_append_short [of ?n "replicate ?n 0 @ h" d] assms(2) rot by simp
  have rot': "drop (?e mod ?n) ?buf' @ take (?e mod ?n) ?buf' = lastn ?n (replicate ?n 0 @ h @ d)"
  proof (cases "?e = ?n")
    case True
    then have "?e mod ?n = 0" by simp
    moreover have "?buf' = take ?w ?buf @ d" using True len by simp
    moreover have "drop (length d) (drop ?w ?buf @ take ?w ?buf) = take ?w ?buf"
      using True len by simp
    ultimately show ?thesis using target by simp
  next
    case False
    then have lt: "?e < ?n" using assms(3) by simp
    then have m: "?e mod ?n = ?e" by simp
    have "drop ?e ?buf' = drop ?e ?buf" using len wlt lt by simp
    moreover have "take ?e ?buf' = take ?w ?buf @ d" using len wlt lt by simp
    moreover have "drop (length d) (drop ?w ?buf @ take ?w ?buf) = drop ?e ?buf @ take ?w ?buf"
      using len lt by (simp add: add.commute)
    ultimately show ?thesis using target m by simp
  qed
  have idx: "?e mod ?n < ?n" using pos by simp
  have idx_h: "?e mod ?n \<le> length (h @ d)"
    using wh by (metis add_le_mono1 length_append mod_less_eq_dividend order_trans)
  have nf: "\<not> is_full b \<longrightarrow> ?e mod ?n = length (h @ d) mod ?n"
    using notfull by (simp add: mod_add_left_eq)
  have full': "is_full b \<longrightarrow> ?n \<le> length (h @ d)" using full by auto
  have sel: "buffer (AudioBuffer_write b d) = ?buf'"
    "write_index (AudioBuffer_write b d) = ?e mod ?n"
    "is_full (AudioBuffer_write b d) = is_full b"
    "buffer_size (AudioBuffer_write b d) = ?n"
    by (simp_all add: w)
  show ?thesis
    unfolding ring_inv_def sel
    using len' pos idx idx_h rot' full' nf by blast
qed

lemma write_wraps:
  assumes "ring_inv b h" and "length d < buffer_size b"
    and "buffer_size b < write_index b + length d"
  shows "ring_inv (AudioBuffer_write b d) (h @ d)"
proof -
  let ?n = "buffer_size b" and ?w = "write_index b" and ?buf = "buffer b"
  let ?f = "?n - ?w"
  let ?w' = "length d - ?f"
  let ?buf1 = "take ?w ?buf @ take ?f d"
  let ?buf2 = "drop ?f d @ drop ?w' ?buf1"
  from assms(1) have len: "length ?buf = ?n" and pos: "0 < ?n" and wlt: "?w < ?n"
    and wh: "?w \<le> length h"
    and rot: "drop ?w ?buf @ take ?w ?buf = lastn ?n (replicate ?n 0 @ h)"
    by (simp_all add: ring_inv_def)
  have w: "AudioBuffer_write b d = b\<lparr>buffer := ?buf2, write_index := ?w', is_full := True\<rparr>"
    using assms(2,3) by (simp add: AudioBuffer_write_def Let_def)
  have f_le: "?f \<le> length d" using assms(3) by simp
  have w'_lt: "?w' < ?w" using assms(2,3) wlt by simp
  have len1: "length ?buf1 = ?n" using len wlt f_le by simp
  have len2: "length ?buf2 = ?n" using len1 f_le assms(2) by simp
  have target: "lastn ?n (replicate ?n 0 @ h @ d) = drop (length d) (drop ?w ?buf @ take ?w ?buf) @ d"
    using lastn_append_short [of ?n "replicate ?n 0 @ h" d] assms(2) rot by simp
  have "drop (length d) (drop ?w ?buf @ take ?w ?buf) = drop ?w' (take ?w ?buf)"
    using len f_le by simp
  then have target': "lastn ?n (replicate ?n 0 @ h @ d) = drop ?w' (take ?w ?buf) @ d"
    using target by simp
  have "take ?w' ?buf2 = drop ?f d" using f_le by simp
  moreover have "drop ?w' ?buf2 = drop ?w' ?buf1" using f_le by simp
  moreover have "drop ?w' ?buf1 = drop ?w' (take ?w ?buf) @ take ?f d"
    using w'_lt len wlt by simp
  ultimately have "drop ?w' ?buf2 @ take ?w' ?buf2 = drop ?w' (take ?w ?buf) @ take ?f d @ drop ?f d"
    by simp
  then have rot': "drop ?w' ?buf2 @ take ?w' ?buf2 = lastn ?n (replicate ?n 0 @ h @ d)"
    using target' by simp
  have idx: "?w' < ?n" using w'_lt wlt by simp
  have idx_h: "?w' \<le> length (h @ d)" by simp
  have full': "?n \<le> length (h @ d)" using wh assms(3) by simp
  have sel: "buffer (AudioBuffer_write b d) = ?buf2"
    "write_index (AudioBuffer_write b d) = ?w'"
    "is_full (AudioBuffer_write b d) = True"
    "buffer_size (AudioBuffer_write b d) = ?n"
    by (simp_all add: w)
  show ?thesis
    unfolding ring_inv_def sel
    using len2 pos idx idx_h rot' full' by blast
qed

lemma write_inv:
  assumes "ring_inv b h"
  shows "ring_inv (AudioBuffer_write b d) (h @ d)"
proof (cases "buffer_size b \<le> length d")
  case True
  then show ?thesis using assms by (rule write_oversize [rotated])
next
  case False
  then have short: "length d < buffer_size b" by simp
  show ?thesis
  proof (cases "write_index b + length d \<le> buffer_size b")
    case True
    with assms short show ?thesis by (rule write_fits)
  next
    case False
    then have "buffer_size b < write_index b + length d" by simp
    with assms short show ?thesis by (rule write_wraps)
  qed
qed

lemma writes_inv:
  assumes "ring_inv b h"
  shows "ring_inv (writes b ds) (h @ concat ds)"
  using assms
proof (induction ds arbitrary: b h)
  case Nil
  then show ?case by simp
next
  case (Cons d ds)
  from write_inv [OF Cons.prems, of d] have "ring_inv (AudioBuffer_write b d) (h @ d)" .
  from Cons.IH [OF this] show ?case by simp
qed

lemma writes_frame:
  "buffer_size (writes b ds) = buffer_size b" "sample_rate (writes b ds) = sample_rate b"
  by (induction ds arbitrary: b) (simp_all add: AudioBuffer_write_def Let_def)

lemma read_whole_window:
  assumes "ring_inv b h" and "0 < sample_rate b"
  shows "AudioBuffer_read_last_seconds b (real (buffer_size b) / real (sample_rate b))
           = (if is_full b then lastn (buffer_size b) h else lastn (length h mod buffer_size b) h)"
proof -
  let ?n = "buffer_size b" and ?w = "write_index b" and ?buf = "buffer b"
  from assms(1) have len: "length ?buf = ?n" and pos: "0 < ?n" and wlt: "?w < ?n"
    and wh: "?w \<le> length h"
    and rot: "drop ?w ?buf @ take ?w ?buf = lastn ?n (replicate ?n 0 @ h)"
    and full: "is_full b \<longrightarrow> ?n \<le> length h"
    and notfull: "\<not> is_full b \<longrightarrow> ?w = length h mod ?n"
    by (simp_all add: ring_inv_def)
  have samples: "py_int (real (sample_rate b) * (real ?n / real (sample_rate b))) = int ?n"
    using assms(2) by (simp add: py_int_def)
  show ?thesis
  proof (cases "is_full b")
    case True
    then have "AudioBuffer_read_last_seconds b (real ?n / real (sample_rate b))
                 = drop ?w ?buf @ take ?w ?buf"
      using samples wlt by (simp add: AudioBuffer_read_last_seconds_def Let_def)
    also have "\<dots> = lastn ?n h"
      using rot full True by (simp add: lastn_def)
    finally show ?thesis using True by simp
  next
    case False
    then have "AudioBuffer_read_last_seconds b (real ?n / real (sample_rate b)) = take ?w ?buf"
      using samples wlt by (simp add: AudioBuffer_read_last_seconds_def Let_def)
    also have "take ?w ?buf = lastn ?w (drop ?w ?buf @ take ?w ?buf)"
      using len wlt by (simp add: lastn_def)
    also have "\<dots> = lastn ?w (lastn ?n (replicate ?n 0 @ h))" using rot by simp
    also have "\<dots> = lastn ?w h"
      using wh wlt by (simp add: lastn_def)
    finally show ?thesis using False notfull by simp
  qed
qed

text \<open>
  After any writes to a fresh buffer of positive capacity, reading the whole window
  gives the most recent \<open>buffer_size\<close> samples when the buffer is marked full; when it is
  not, it gives only the samples written since the cursor last came back to 0.
\<close>

lemma read_after_writes:
  assumes "0 < rate" and "0 < nat (py_int (real rate * dur))"
  shows "AudioBuffer_read_last_seconds (writes (AudioBuffer_init rate dur) ds)
           (real (buffer_size (AudioBuffer_init rate dur)) / real rate)
         = (if is_full (writes (AudioBuffer_init rate dur) ds)
            then lastn (buffer_size (AudioBuffer_init rate dur)) (concat ds)
            else lastn (length (concat ds) mod buffer_size (AudioBuffer_init rate dur)) (concat ds))"
proof -
  let ?b = "writes (AudioBuffer_init rate dur) ds"
  have "ring_inv ?b ([] @ concat ds)"
    using ring_inv_init [OF assms(2)] by (rule writes_inv)
  then have inv: "ring_inv ?b (concat ds)" by simp
  have rate: "sample_rate ?b = rate"
    by (simp add: writes_frame AudioBuffer_init_def Let_def)
  from read_whole_window [OF inv] rate assms(1)
  show ?thesis by (simp add: writes_frame)
qed

text \<open>
  Chunks of one size that divides the capacity never make a write wrap: each ends at or
  before the boundary, so the buffer is never marked full.
\<close>

lemma even_chunks_never_full:
  assumes "ring_inv b h" and "\<not> is_full b"
    and "c dvd buffer_size b" and "c < buffer_size b" and "c dvd write_index b"
    and "list_all (\<lambda>d. length d = c) ds"
  shows "\<not> is_full (writes b ds)"
  using assms
proof (induction ds arbitrary: b h)
  case Nil
  then show ?case by simp
next
  case (Cons d ds)
  let ?n = "buffer_size b" and ?w = "write_index b"
  from Cons.prems have d: "length d = c" and rest: "list_all (\<lambda>d. length d = c) ds" by simp_all
  from Cons.prems(1) have wlt: "?w < ?n" by (simp add: ring_inv_def)
  have "c dvd ?n - ?w" using Cons.prems(3,5) by (rule dvd_diff_nat)
  moreover have "0 < ?n - ?w" using wlt by simp
  ultimately have "c \<le> ?n - ?w" by (rule dvd_imp_le)
  then have fits: "?w + length d \<le> ?n" using d wlt by simp
  have w: "AudioBuffer_write b d =
             b\<lparr>buffer := take ?w (buffer b) @ d @ drop (?w + length d) (buffer b),
               write_index := (?w + length d) mod ?n\<rparr>"
    using fits d Cons.prems(4) by (simp add: AudioBuffer_write_def Let_def)
  have "c dvd (?w + length d) mod ?n"
    using Cons.prems(3,5) d by (simp add: dvd_mod)
  then have "\<not> is_full (writes (AudioBuffer_write b d) ds)"
    using Cons.IH [OF write_inv [OF Cons.prems(1), of d]] Cons.prems(2,3,4) rest
    by (simp add: w)
  then show ?case by simp
qed

text \<open>
  The buffer of the service (16000 samples per second, 30 seconds) fed with chunks of one
  second: whatever their number, reading the last 30 seconds gives only the samples
  written since the cursor last came back to 0. After 31 chunks that is the last chunk
  alone.
\<close>

lemma one_second_chunks:
  assumes "list_all (\<lambda>d. length d = 16000) ds"
  shows "AudioBuffer_read_last_seconds (writes (AudioBuffer_init 16000 30) ds) 30
           = lastn (length (concat ds) mod 480000) (concat ds)"
proof -
  have size: "buffer_size (AudioBuffer_init 16000 30) = 480000"
    by (simp add: AudioBuffer_init_service)
  have init: "ring_inv (AudioBuffer_init 16000 30) []"
    by (rule ring_inv_init) (simp add: py_int_def)
  have "\<not> is_full (writes (AudioBuffer_init 16000 30) ds)"
    using even_chunks_never_full [OF init _ _ _ _ assms]
    by (simp add: AudioBuffer_init_service)
  moreover have "AudioBuffer_read_last_seconds (writes (AudioBuffer_init 16000 30) ds)
           (real (buffer_size (AudioBuffer_init 16000 30)) / real 16000)
         = (if is_full (writes (AudioBuffer_init 16000 30) ds)
            then lastn (buffer_size (AudioBuffer_init 16000 30)) (concat ds)
            else lastn (length (concat ds) mod buffer_size (AudioBuffer_init 16000 30)) (concat ds))"
    by (rule read_after_writes) (simp_all add: py_int_def)
  ultimately show ?thesis by (simp add: size)
qed

section \<open>The ring buffer at the capacity boundary\<close>

lemma AudioBuffer_init_2_2:
  "AudioBuffer_init 2 2 =
     \<lparr>sample_rate = 2, buffer_size = 4, buffer = [0, 0, 0, 0], write_index = 0, is_full = False\<rparr>"
  by (simp add: AudioBuffer_init_def py_int_def numeral_eq_Suc)

text \<open>
  C1. A buffer of capacity 4 (2 samples per second, 2 seconds) receives the writes
  \<open>[1, 2]\<close>, \<open>[3, 4]\<close> and \<open>[5]\<close>: five samples, more than the capacity, the second write
  ending exactly at the capacity boundary. Reading the last \<open>capacity / sample_rate\<close>
  seconds returns only \<open>[5]\<close>, not the most recent four samples \<open>[2, 3, 4, 5]\<close>: the
  branch of \<open>write\<close> for data that fits without wrapping moves the cursor back to 0 but
  does not set \<open>is_full\<close>, so the reader still believes that only \<open>write_index\<close> samples
  were ever written. (Whenever the buffer is marked full the read is right, and in the
  service's own buffer one-second chunks never mark it full: see the lemmas above.)
\<close>

theorem ring_buffer_boundary_write_loses_history:
  "AudioBuffer_read_last_seconds
     (writes (AudioBuffer_init 2 2) [[1, 2], [3, 4], [5]]) (real 4 / real 2) = [5]
   \<and> lastn 4 (concat [[1, 2], [3, 4], [5 :: sample]]) = [2, 3, 4, 5]
   \<and> \<not> is_full (writes (AudioBuffer_init 2 2) [[1, 2], [3, 4], [5]])"
  by (simp add: AudioBuffer_init_2_2 AudioBuffer_write_def AudioBuffer_read_last_seconds_def
      py_int_def lastn_def)

section \<open>The final pass of the ring-buffer service\<close>

text \<open>
  What the service's buffer gives to a reader of its whole window, in terms of what was
  written to it: all of it while fewer samples were written than the buffer holds, and
  the most recent 480000 once the buffer is marked full. The states in between (at least
  480000 samples written and the buffer not marked full) are those of C1.
\<close>

lemma service_window:
  assumes "b = writes (AudioBuffer_init 16000 30) ds"
    and "is_full b \<or> length (concat ds) < 480000"
  shows "AudioBuffer_read_last_seconds b 30 = lastn 480000 (concat ds)"
proof -
  have size: "buffer_size (AudioBuffer_init 16000 30) = 480000"
    by (simp add: AudioBuffer_init_service)
  have "AudioBuffer_read_last_seconds (writes (AudioBuffer_init 16000 30) ds)
           (real (buffer_size (AudioBuffer_init 16000 30)) / real 16000)
         = (if is_full (writes (AudioBuffer_init 16000 30) ds)
            then lastn (buffer_size (AudioBuffer_init 16000 30)) (concat ds)
            else lastn (length (concat ds) mod buffer_size (AudioBuffer_init 16000 30)) (concat ds))"
    by (rule read_after_writes) (simp_all add: py_int_def)
  then have read: "AudioBuffer_read_last_seconds b 30
         = (if is_full b then lastn 480000 (concat ds)
            else lastn (length (concat ds) mod 480000) (concat ds))"
    using assms(1) by (simp add: size)
  show ?thesis
  proof (cases "is_full b")
    case True
    with read show ?thesis by simp
  next
    case False
    with assms(2) have "length (concat ds) < 480000" by simp
    then have "lastn (length (concat ds) mod 480000) (concat ds) = lastn 480000 (concat ds)"
      by (simp add: lastn_def)
    with read False show ?thesis by simp
  qed
qed

lemma rt_stop_kept:
  assumes "rt_sessions svc sid = Some session"
    and "real (length (AudioBuffer_read_last_seconds (rt_audio_buffer session) (buffer_duration svc)))
           < real (rt_sample_rate svc) * 0.5 \<or> \<not> tmp_ok"
  shows "rt_manager_stop_recording svc sid tmp_ok whisper now =
            (svc\<lparr>rt_sessions := (rt_sessions svc)(sid \<mapsto> session\<lparr>rt_is_recording := False\<rparr>)\<rparr>,
             Recording_stopped sid
               (case rt_final_transcription session of
                  Some final \<Rightarrow> Some final
                | None \<Rightarrow> Some (strip (rt_full_transcription session))) now)"
  using assms
  by (auto simp add: rt_manager_stop_recording_def rt_stop_recording_def Let_def
      process_final_audio_chunk_def rt_get_final_transcription_def
      split: option.splits sum.splits)

lemma rt_stop_pass:
  assumes "rt_sessions svc sid = Some session"
    and "real (length (AudioBuffer_read_last_seconds (rt_audio_buffer session) (buffer_duration svc)))
           \<ge> real (rt_sample_rate svc) * 0.5" and "tmp_ok"
  shows "rt_manager_stop_recording svc sid tmp_ok whisper now =
            (case whisper (AudioBuffer_read_last_seconds (rt_audio_buffer session) (buffer_duration svc)) of
               Inr t \<Rightarrow>
                 if strip (transcript_text t) \<noteq> [] then
                   (svc\<lparr>rt_sessions := (rt_sessions svc)
                      (sid \<mapsto> session\<lparr>rt_is_recording := False,
                                      rt_final_transcription := Some (strip (transcript_text t))\<rparr>)\<rparr>,
                    Recording_stopped sid (Some (strip (transcript_text t))) now)
                 else
                   (svc\<lparr>rt_sessions := (rt_sessions svc)(sid \<mapsto> session\<lparr>rt_is_recording := False\<rparr>)\<rparr>,
                    Recording_stopped sid
                      (case rt_final_transcription session of
                         Some final \<Rightarrow> Some final
                       | None \<Rightarrow> Some (strip (rt_full_transcription session))) now)
             | Inl e \<Rightarrow>
                 (svc\<lparr>rt_sessions := (rt_sessions svc)(sid \<mapsto> session\<lparr>rt_is_recording := False\<rparr>)\<rparr>,
                  Recording_stopped sid
                    (case rt_final_transcription session of
                       Some final \<Rightarrow> Some final
                     | None \<Rightarrow> Some (strip (rt_full_transcription session))) now))"
  using assms
  by (auto simp add: rt_manager_stop_recording_def rt_stop_recording_def Let_def
      process_final_audio_chunk_def rt_get_final_transcription_def
      split: option.splits sum.splits)

lemma basic_stop_complete:
  assumes "sessions (run BasicRealtimeAudioService_init evs) sid = Some s"
  shows "manager_stop_recording
           \<lparr>audio_service = run BasicRealtimeAudioService_init evs, active_sessions = A\<rparr> sid now
         = (\<lparr>audio_service = (run BasicRealtimeAudioService_init evs)
               \<lparr>sessions := (sessions (run BasicRealtimeAudioService_init evs))
                  (sid \<mapsto> s\<lparr>is_recording := False, recording_end_time := Some now\<rparr>)\<rparr>,
              active_sessions = A\<rparr>,
            Recording_stopped sid (Some (join SP (map seg_text (transcription_segments s)))) now)"
proof -
  have "derived s"
    using run_derived [of BasicRealtimeAudioService_init evs sid s] assms
    by (simp add: BasicRealtimeAudioService_init_def)
  then have "strip (full_transcription s) = join SP (map seg_text (transcription_segments s))"
    by (rule derived_reported)
  then show ?thesis
    using assms
    by (simp add: manager_stop_recording_def stop_recording_def get_final_transcription_def
        BasicAudioSession_stop_recording_def)
qed

lemma example_run_result:
  "sessions (run BasicRealtimeAudioService_init example_run) ''s1'' = Some example_result"
  by (simp add: example_run_def example_result_def BasicRealtimeAudioService_init_def
      create_session_def start_recording_def transcribe_audio_file_def
      BasicAudioSession_init_def BasicAudioSession_start_recording_def
      add_transcription_segment_def answers_def str_def strip_def py_isspace_def SP_def Let_def)

lemma transcribe_audio_chunk_frame:
  "rt_audio_buffer (transcribe_audio_chunk svc session ok w now) = rt_audio_buffer session"
  "rt_is_recording (transcribe_audio_chunk svc session ok w now) = rt_is_recording session"
  by (simp_all add: transcribe_audio_chunk_def Let_def split: sum.splits)

lemma process_audio_chunk_writes:
  assumes "rt_sessions svc sid = Some session" and "rt_is_recording session"
  shows "\<exists>session' r.
           process_audio_chunk svc sid (Inr samples) ok w now
             = (svc\<lparr>rt_sessions := (rt_sessions svc)(sid \<mapsto> session')\<rparr>, r)
         \<and> rt_audio_buffer session' = AudioBuffer_write (rt_audio_buffer session) samples
         \<and> rt_is_recording session'"
proof -
  let ?s1 = "session\<lparr>rt_audio_buffer := AudioBuffer_write (rt_audio_buffer session) samples\<rparr>"
  let ?s2 = "if now - rt_last_transcription_time ?s1 \<ge> chunk_duration svc
             then (transcribe_audio_chunk svc ?s1 ok w now)\<lparr>rt_last_transcription_time := now\<rparr>
             else ?s1"
  have buf: "rt_audio_buffer ?s2 = AudioBuffer_write (rt_audio_buffer session) samples"
    and rec: "rt_is_recording ?s2"
    using assms(2) by (simp_all add: transcribe_audio_chunk_frame)
  from get_buffer_level_after_write [OF buf]
  obtain level where level: "get_buffer_level ?s2 = Inr level" by blast
  have "process_audio_chunk svc sid (Inr samples) ok w now
          = (svc\<lparr>rt_sessions := (rt_sessions svc)(sid \<mapsto> ?s2)\<rparr>, Chunk_success level now)"
    using assms level by (simp add: process_audio_chunk_def Let_def)
  with buf rec show ?thesis by blast
qed

lemma rt_feed_writes:
  assumes "rt_sessions svc sid = Some session" and "rt_is_recording session"
  shows "\<exists>svc' rs session'. rt_feed svc sid chunks = (svc', rs)
           \<and> rt_sessions svc' sid = Some session'
           \<and> rt_sample_rate svc' = rt_sample_rate svc
           \<and> buffer_duration svc' = buffer_duration svc
           \<and> rt_audio_buffer session' = writes (rt_audio_buffer session) (map fst chunks)
           \<and> rt_is_recording session'"
  using assms
proof (induction chunks arbitrary: svc session)
  case Nil
  then show ?case by simp
next
  case (Cons c chunks)
  obtain d ok w t where c: "c = (d, ok, w, t)" by (cases c) auto
  from process_audio_chunk_writes [OF Cons.prems, of d ok w t]
  obtain s1 r where
    step: "process_audio_chunk svc sid (Inr d) ok w t
             = (svc\<lparr>rt_sessions := (rt_sessions svc)(sid \<mapsto> s1)\<rparr>, r)"
    and s1: "rt_audio_buffer s1 = AudioBuffer_write (rt_audio_buffer session) d"
    and rec: "rt_is_recording s1"
    by blast
  let ?svc1 = "svc\<lparr>rt_sessions := (rt_sessions svc)(sid \<mapsto> s1)\<rparr>"
  have "rt_sessions ?svc1 sid = Some s1" by simp
  from Cons.IH [OF this rec]
  obtain svc' rs session' where run: "rt_feed ?svc1 sid chunks = (svc', rs)"
    and after: "rt_sessions svc' sid = Some session'"
      "rt_sample_rate svc' = rt_sample_rate ?svc1"
      "buffer_duration svc' = buffer_duration ?svc1"
      "rt_audio_buffer session' = writes (rt_audio_buffer s1) (map fst chunks)"
      "rt_is_recording session'"
    by blast
  have "rt_feed svc sid (c # chunks) = (svc', r # rs)"
    using c step run by simp
  then show ?case using after s1 c by simp
qed

text \<open>
  A session created and started in the service and then sent any chunks, whatever the
  collaborator did meanwhile, has the buffer of these hypotheses: the fresh buffer of
  16000 samples per second and 30 seconds, with every chunk written to it in order.
\<close>

lemma fed_session_buffer:
  "\<exists>svc' rs session'.
     rt_feed (fst (rt_start_recording
                (fst (rt_create_session RealtimeAudioService_init (Some sid) uuid t0)) sid t1))
       sid chunks = (svc', rs)
     \<and> rt_sessions svc' sid = Some session'
     \<and> rt_sample_rate svc' = 16000 \<and> buffer_duration svc' = 30
     \<and> rt_audio_buffer session' = writes (AudioBuffer_init 16000 30) (map fst chunks)
     \<and> rt_is_recording session'"
proof -
  let ?svc = "fst (rt_start_recording
                (fst (rt_create_session RealtimeAudioService_init (Some sid) uuid t0)) sid t1)"
  let ?session = "\<lparr>rt_created_at = t0, rt_is_recording = True,
                    rt_audio_buffer = AudioBuffer_init 16000 30,
                    rt_transcription_queue = [], rt_full_transcription = [],
                    rt_transcription_segments = [], rt_last_transcription_time = 0,
                    rt_recording_start_time = Some t1, rt_final_transcription = None\<rparr>"
  have session: "rt_sessions ?svc sid = Some ?session"
    and config: "rt_sample_rate ?svc = 16000" "buffer_duration ?svc = 30"
    by (simp_all add: rt_start_recording_def rt_create_session_def RealtimeAudioService_init_def
        Let_def)
  have "rt_is_recording ?session" by simp
  from rt_feed_writes [OF session this, of chunks] config
  show ?thesis by simp
qed

text \<open>
  C2, as stated, fails. In the ring-buffer service a recording session holds two samples
  of audio and the collaborator would answer \<open>"hello"\<close> to any request. The stop is
  answered with \<open>recording_stopped\<close> and an empty final transcription, and the session's
  final transcription is still unset: the buffered window is shorter than half a second,
  so the final pass asks for no transcription at all. With half a second of audio
  buffered, a collaborator that is down, or one that answers with blanks only, leaves the
  final transcription unset as well.
\<close>

theorem stop_skips_short_window:
  "rt_sessions rt_short_service ''s1'' = Some rt_short_session
   \<and> rt_is_recording rt_short_session
   \<and> AudioBuffer_read_last_seconds (rt_audio_buffer rt_short_session)
        (buffer_duration rt_short_service) = [0.5, 0.25]
   \<and> rt_manager_stop_recording rt_short_service ''s1'' True (answers ''hello'') 3
        = (rt_short_service\<lparr>rt_sessions := (rt_sessions rt_short_service)
              (''s1'' \<mapsto> rt_short_session\<lparr>rt_is_recording := False\<rparr>)\<rparr>,
           Recording_stopped ''s1'' (Some []) 3)
   \<and> rt_final_transcription (rt_short_session\<lparr>rt_is_recording := False\<rparr>) = None
   \<and> rt_sessions rt_long_service ''s1'' = Some rt_long_session
   \<and> rt_is_recording rt_long_session
   \<and> AudioBuffer_read_last_seconds (rt_audio_buffer rt_long_session)
        (buffer_duration rt_long_service) = replicate 8000 0.5
   \<and> rt_manager_stop_recording rt_long_service ''s1'' True down 3
        = (rt_long_service\<lparr>rt_sessions := (rt_sessions rt_long_service)
              (''s1'' \<mapsto> rt_long_session\<lparr>rt_is_recording := False\<rparr>)\<rparr>,
           Recording_stopped ''s1'' (Some []) 3)
   \<and> rt_manager_stop_recording rt_long_service ''s1'' True (answers ''  '') 3
        = (rt_long_service\<lparr>rt_sessions := (rt_sessions rt_long_service)
              (''s1'' \<mapsto> rt_long_session\<lparr>rt_is_recording := False\<rparr>)\<rparr>,
           Recording_stopped ''s1'' (Some []) 3)
   \<and> rt_final_transcription (rt_long_session\<lparr>rt_is_recording := False\<rparr>) = None"
proof -
  have session: "rt_sessions rt_short_service ''s1'' = Some rt_short_session"
    by (simp add: rt_short_service_eq)
  have config: "buffer_duration rt_short_service = 30" "rt_sample_rate rt_short_service = 16000"
    by (simp_all add: rt_short_service_eq rt_example_service_config)
  have window: "AudioBuffer_read_last_seconds (rt_audio_buffer rt_short_session) 30 = [0.5, 0.25]"
    using short_window by (simp add: rt_short_session_def)
  have fields: "rt_is_recording rt_short_session" "rt_final_transcription rt_short_session = None"
    "rt_full_transcription rt_short_session = []"
    by (simp_all add: rt_short_session_def rt_example_session_def)
  have "rt_manager_stop_recording rt_short_service ''s1'' True (answers ''hello'') 3
        = (rt_short_service\<lparr>rt_sessions := (rt_sessions rt_short_service)
              (''s1'' \<mapsto> rt_short_session\<lparr>rt_is_recording := False\<rparr>)\<rparr>,
           Recording_stopped ''s1'' (Some []) 3)"
    using session config window fields
    by (simp add: rt_manager_stop_recording_def rt_stop_recording_def Let_def
        process_final_audio_chunk_def rt_get_final_transcription_def)
  with session config window fields have short: "rt_sessions rt_short_service ''s1'' = Some rt_short_session
   \<and> rt_is_recording rt_short_session
   \<and> AudioBuffer_read_last_seconds (rt_audio_buffer rt_short_session)
        (buffer_duration rt_short_service) = [0.5, 0.25]
   \<and> rt_manager_stop_recording rt_short_service ''s1'' True (answers ''hello'') 3
        = (rt_short_service\<lparr>rt_sessions := (rt_sessions rt_short_service)
              (''s1'' \<mapsto> rt_short_session\<lparr>rt_is_recording := False\<rparr>)\<rparr>,
           Recording_stopped ''s1'' (Some []) 3)
   \<and> rt_final_transcription (rt_short_session\<lparr>rt_is_recording := False\<rparr>) = None"
    by simp
  have lsession: "rt_sessions rt_long_service ''s1'' = Some rt_long_session"
    by (simp add: rt_long_service_eq)
  have lconfig: "buffer_duration rt_long_service = 30" "rt_sample_rate rt_long_service = 16000"
    by (simp_all add: rt_long_service_eq rt_example_service_config)
  have lwindow: "AudioBuffer_read_last_seconds (rt_audio_buffer rt_long_session) 30
                   = replicate 8000 0.5"
    using long_window by (simp add: rt_long_session_def)
  have lfields: "rt_is_recording rt_long_session" "rt_final_transcription rt_long_session = None"
    "rt_full_transcription rt_long_session = []"
    by (simp_all add: rt_long_session_def rt_example_session_def)
  have blank: "strip (str ''  '') = []"
    by (simp add: strip_def str_def py_isspace_def)
  have ldown: "rt_manager_stop_recording rt_long_service ''s1'' True down 3
        = (rt_long_service\<lparr>rt_sessions := (rt_sessions rt_long_service)
              (''s1'' \<mapsto> rt_long_session\<lparr>rt_is_recording := False\<rparr>)\<rparr>,
           Recording_stopped ''s1'' (Some []) 3)"
    using rt_stop_failing [OF lsession failing_down, of True 3] lfields by simp
  have lblank: "rt_manager_stop_recording rt_long_service ''s1'' True (answers ''  '') 3
        = (rt_long_service\<lparr>rt_sessions := (rt_sessions rt_long_service)
              (''s1'' \<mapsto> rt_long_session\<lparr>rt_is_recording := False\<rparr>)\<rparr>,
           Recording_stopped ''s1'' (Some []) 3)"
    using lsession lconfig lwindow lfields blank
    by (simp add: rt_manager_stop_recording_def rt_stop_recording_def Let_def
        process_final_audio_chunk_def rt_get_final_transcription_def answers_def)
  have lwin: "AudioBuffer_read_last_seconds (rt_audio_buffer rt_long_session)
        (buffer_duration rt_long_service) = replicate 8000 0.5"
    using lwindow lconfig by simp
  have lfinal: "rt_final_transcription (rt_long_session\<lparr>rt_is_recording := False\<rparr>) = None"
    using lfields by simp
  from short lsession lfields(1) lwin ldown lblank lfinal
  show ?thesis by (intro conjI) simp_all
qed

text \<open>
  C2, amended. In the ring-buffer service, for a session whose buffer is marked
  consistently with what was written to it (marked full, or fewer samples written than
  it holds; not the states of C1): the window of the final pass is the entire buffered
  audio, that is, everything written, or the most recent 30 seconds of it once more than
  that was written. With at least half a second of audio in it (8000 samples) and a
  temporary file that can be written, the stop is determined, before it returns, by the
  collaborator's answer to exactly that window: a text that is not empty after
  stripping becomes the session's final transcription and the \<open>recording_stopped\<close> answer
  carries it; if the collaborator raises or answers with blanks only, or if less than
  half a second is buffered or the file cannot be written, the session changes in
  nothing but its recording flag and the answer carries the final transcription set
  before, otherwise the stripped accumulated transcript. In the basic service, in any
  state it reaches, a stop of a session with no audio left in its buffer is answered
  with the complete transcript, the texts of all its segments joined; nothing is stated
  here about its stop while audio is still buffered.
\<close>

theorem final_pass_takes_whole_buffer:
  "(rt_sessions svc sid = Some session \<and> rt_sample_rate svc = 16000 \<and> buffer_duration svc = 30
      \<and> rt_audio_buffer session = writes (AudioBuffer_init 16000 30) ds
      \<and> (is_full (rt_audio_buffer session) \<or> length (concat ds) < 480000) \<longrightarrow>
      AudioBuffer_read_last_seconds (rt_audio_buffer session) (buffer_duration svc)
        = lastn 480000 (concat ds)
      \<and> (length (concat ds) < 8000 \<or> \<not> tmp_ok \<longrightarrow>
          rt_manager_stop_recording svc sid tmp_ok whisper now =
            (svc\<lparr>rt_sessions := (rt_sessions svc)(sid \<mapsto> session\<lparr>rt_is_recording := False\<rparr>)\<rparr>,
             Recording_stopped sid
               (case rt_final_transcription session of
                  Some final \<Rightarrow> Some final
                | None \<Rightarrow> Some (strip (rt_full_transcription session))) now))
      \<and> (8000 \<le> length (concat ds) \<and> tmp_ok \<longrightarrow>
          rt_manager_stop_recording svc sid tmp_ok whisper now =
            (case whisper (lastn 480000 (concat ds)) of
               Inr t \<Rightarrow>
                 if strip (transcript_text t) \<noteq> [] then
                   (svc\<lparr>rt_sessions := (rt_sessions svc)
                      (sid \<mapsto> session\<lparr>rt_is_recording := False,
                                      rt_final_transcription := Some (strip (transcript_text t))\<rparr>)\<rparr>,
                    Recording_stopped sid (Some (strip (transcript_text t))) now)
                 else
                   (svc\<lparr>rt_sessions := (rt_sessions svc)(sid \<mapsto> session\<lparr>rt_is_recording := False\<rparr>)\<rparr>,
                    Recording_stopped sid
                      (case rt_final_transcription session of
                         Some final \<Rightarrow> Some final
                       | None \<Rightarrow> Some (strip (rt_full_transcription session))) now)
             | Inl e \<Rightarrow>
                 (svc\<lparr>rt_sessions := (rt_sessions svc)(sid \<mapsto> session\<lparr>rt_is_recording := False\<rparr>)\<rparr>,
                  Recording_stopped sid
                    (case rt_final_transcription session of
                       Some final \<Rightarrow> Some final
                     | None \<Rightarrow> Some (strip (rt_full_transcription session))) now))))
   \<and> (sessions (run BasicRealtimeAudioService_init evs) bid = Some s \<and> audio_buffer s = [] \<longrightarrow>
        manager_stop_recording
           \<lparr>audio_service = run BasicRealtimeAudioService_init evs, active_sessions = A\<rparr> bid now
         = (\<lparr>audio_service = (run BasicRealtimeAudioService_init evs)
               \<lparr>sessions := (sessions (run BasicRealtimeAudioService_init evs))
                  (bid \<mapsto> s\<lparr>is_recording := False, recording_end_time := Some now\<rparr>)\<rparr>,
              active_sessions = A\<rparr>,
            Recording_stopped bid (Some (join SP (map seg_text (transcription_segments s)))) now))"
proof (intro conjI impI)
  assume a: "rt_sessions svc sid = Some session \<and> rt_sample_rate svc = 16000 \<and> buffer_duration svc = 30
      \<and> rt_audio_buffer session = writes (AudioBuffer_init 16000 30) ds
      \<and> (is_full (rt_audio_buffer session) \<or> length (concat ds) < 480000)"
  then have session: "rt_sessions svc sid = Some session"
    and config: "rt_sample_rate svc = 16000" "buffer_duration svc = 30"
    and buf: "rt_audio_buffer session = writes (AudioBuffer_init 16000 30) ds"
    and marked: "is_full (rt_audio_buffer session) \<or> length (concat ds) < 480000"
    by blast+
  have len: "length (AudioBuffer_read_last_seconds (rt_audio_buffer session) 30)
               = min 480000 (length (concat ds))"
    using service_window [OF buf marked] by simp
  from service_window [OF buf marked]
  show window: "AudioBuffer_read_last_seconds (rt_audio_buffer session) (buffer_duration svc)
                  = lastn 480000 (concat ds)"
    by (simp add: config)
  {
    assume "length (concat ds) < 8000 \<or> \<not> tmp_ok"
    then have "real (length (AudioBuffer_read_last_seconds (rt_audio_buffer session) (buffer_duration svc)))
           < real (rt_sample_rate svc) * 0.5 \<or> \<not> tmp_ok"
      by (auto simp add: config len)
    from rt_stop_kept [OF session this]
    show "rt_manager_stop_recording svc sid tmp_ok whisper now =
            (svc\<lparr>rt_sessions := (rt_sessions svc)(sid \<mapsto> session\<lparr>rt_is_recording := False\<rparr>)\<rparr>,
             Recording_stopped sid
               (case rt_final_transcription session of
                  Some final \<Rightarrow> Some final
                | None \<Rightarrow> Some (strip (rt_full_transcription session))) now)" .
  }
  {
    assume "8000 \<le> length (concat ds) \<and> tmp_ok"
    then have long: "8000 \<le> length (concat ds)" and ok: "tmp_ok" by simp_all
    from long have "real (length (AudioBuffer_read_last_seconds (rt_audio_buffer session) (buffer_duration svc)))
           \<ge> real (rt_sample_rate svc) * 0.5"
      by (simp add: config len)
    from rt_stop_pass [OF session this ok, of whisper now]
    show "rt_manager_stop_recording svc sid tmp_ok whisper now =
            (case whisper (lastn 480000 (concat ds)) of
               Inr t \<Rightarrow>
                 if strip (transcript_text t) \<noteq> [] then
                   (svc\<lparr>rt_sessions := (rt_sessions svc)
                      (sid \<mapsto> session\<lparr>rt_is_recording := False,
                                      rt_final_transcription := Some (strip (transcript_text t))\<rparr>)\<rparr>,
                    Recording_stopped sid (Some (strip (transcript_text t))) now)
                 else
                   (svc\<lparr>rt_sessions := (rt_sessions svc)(sid \<mapsto> session\<lparr>rt_is_recording := False\<rparr>)\<rparr>,
                    Recording_stopped sid
                      (case rt_final_transcription session of
                         Some final \<Rightarrow> Some final
                       | None \<Rightarrow> Some (strip (rt_full_transcription session))) now)
             | Inl e \<Rightarrow>
                 (svc\<lparr>rt_sessions := (rt_sessions svc)(sid \<mapsto> session\<lparr>rt_is_recording := False\<rparr>)\<rparr>,
                  Recording_stopped sid
                    (case rt_final_transcription session of
                       Some final \<Rightarrow> Some final
                     | None \<Rightarrow> Some (strip (rt_full_transcription session))) now))"
      unfolding window .
  }
next
  assume "sessions (run BasicRealtimeAudioService_init evs) bid = Some s \<and> audio_buffer s = []"
  then have "sessions (run BasicRealtimeAudioService_init evs) bid = Some s" by simp
  then show "manager_stop_recording
           \<lparr>audio_service = run BasicRealtimeAudioService_init evs, active_sessions = A\<rparr> bid now
         = (\<lparr>audio_service = (run BasicRealtimeAudioService_init evs)
               \<lparr>sessions := (sessions (run BasicRealtimeAudioService_init evs))
                  (bid \<mapsto> s\<lparr>is_recording := False, recording_end_time := Some now\<rparr>)\<rparr>,
              active_sessions = A\<rparr>,
            Recording_stopped bid (Some (join SP (map seg_text (transcription_segments s)))) now)"
    by (rule basic_stop_complete)
qed

theorem final_pass_takes_whole_buffer_witness:
  "rt_sessions rt_short_service ''s1'' = Some rt_short_session
   \<and> rt_sample_rate rt_short_service = 16000 \<and> buffer_duration rt_short_service = 30
   \<and> rt_audio_buffer rt_short_session = writes (AudioBuffer_init 16000 30) [[0.5, 0.25]]
   \<and> length (concat [[0.5, 0.25 :: sample]]) < 8000
   \<and> snd (rt_manager_stop_recording rt_short_service ''s1'' True (answers ''hello'') 3)
        = Recording_stopped ''s1'' (Some []) 3
   \<and> rt_sessions rt_long_service ''s1'' = Some rt_long_session
   \<and> rt_audio_buffer rt_long_session = writes (AudioBuffer_init 16000 30) [replicate 8000 0.5]
   \<and> 8000 \<le> length (concat [replicate 8000 (0.5 :: sample)])
   \<and> length (concat [replicate 8000 (0.5 :: sample)]) < 480000
   \<and> AudioBuffer_read_last_seconds (rt_audio_buffer rt_long_session) (buffer_duration rt_long_service)
        = replicate 8000 0.5
   \<and> snd (rt_manager_stop_recording rt_long_service ''s1'' True (heard 8000) 3)
        = Recording_stopped ''s1'' (Some (str ''hello'')) 3
   \<and> rt_sessions rt_full_service ''s1'' = Some rt_full_session
   \<and> rt_audio_buffer rt_full_session
        = writes (AudioBuffer_init 16000 30) [0.25 # replicate 480000 0.5]
   \<and> is_full (rt_audio_buffer rt_full_session)
   \<and> AudioBuffer_read_last_seconds (rt_audio_buffer rt_full_session) (buffer_duration rt_full_service)
        = replicate 480000 0.5
   \<and> snd (rt_manager_stop_recording rt_full_service ''s1'' True (heard 480000) 3)
        = Recording_stopped ''s1'' (Some (str ''hello'')) 3
   \<and> sessions (run BasicRealtimeAudioService_init example_run) ''s1'' = Some example_result
   \<and> audio_buffer example_result = []
   \<and> snd (manager_stop_recording
             \<lparr>audio_service = run BasicRealtimeAudioService_init example_run,
              active_sessions = {''s1''}\<rparr> ''s1'' 9)
        = Recording_stopped ''s1'' (Some (str ''hi there'')) 9"
proof -
  have short: "rt_sessions rt_short_service ''s1'' = Some rt_short_session"
    by (simp add: rt_short_service_eq)
  have long: "rt_sessions rt_long_service ''s1'' = Some rt_long_session"
    by (simp add: rt_long_service_eq)
  have full: "rt_sessions rt_full_service ''s1'' = Some rt_full_session"
    by (simp add: rt_full_service_eq)
  have config: "buffer_duration rt_short_service = 30" "rt_sample_rate rt_short_service = 16000"
    "buffer_duration rt_long_service = 30" "rt_sample_rate rt_long_service = 16000"
    "buffer_duration rt_full_service = 30" "rt_sample_rate rt_full_service = 16000"
    by (simp_all add: rt_short_service_eq rt_long_service_eq rt_full_service_eq
        rt_example_service_config)
  have bufs:
    "rt_audio_buffer rt_short_session = writes (AudioBuffer_init 16000 30) [[0.5, 0.25]]"
    "rt_audio_buffer rt_long_session = writes (AudioBuffer_init 16000 30) [replicate 8000 0.5]"
    "rt_audio_buffer rt_full_session
       = writes (AudioBuffer_init 16000 30) [0.25 # replicate 480000 0.5]"
    by (simp_all add: rt_short_session_def rt_long_session_def rt_full_session_def)
  have marked: "length (concat [[0.5, 0.25 :: sample]]) < 8000"
    "8000 \<le> length (concat [replicate 8000 (0.5 :: sample)])"
    "length (concat [replicate 8000 (0.5 :: sample)]) < 480000"
    "8000 \<le> length (concat [0.25 # replicate 480000 (0.5 :: sample)])"
    by simp_all
  have isfull: "is_full (rt_audio_buffer rt_full_session)"
    using full_buffer by (simp add: rt_full_session_def)
  have windows: "lastn 480000 (concat [replicate 8000 (0.5 :: sample)]) = replicate 8000 0.5"
    "lastn 480000 (concat [0.25 # replicate 480000 (0.5 :: sample)]) = replicate 480000 0.5"
    by (simp_all add: lastn_def)
  have fields: "rt_final_transcription rt_short_session = None"
    "rt_full_transcription rt_short_session = []"
    by (simp_all add: rt_short_session_def rt_example_session_def)
  have hello: "strip (str ''hello'') = str ''hello''" "str ''hello'' \<noteq> []"
    by (simp_all add: strip_def str_def py_isspace_def)
  have heard: "heard 8000 (replicate 8000 0.5)
                 = Inr \<lparr>transcript_text = str ''hello'', transcript_confidence = None\<rparr>"
    "heard 480000 (replicate 480000 0.5)
                 = Inr \<lparr>transcript_text = str ''hello'', transcript_confidence = None\<rparr>"
    by (simp_all add: heard_def)
  have basic: "audio_buffer example_result = []"
    "join SP (map seg_text (transcription_segments example_result)) = str ''hi there''"
    by (simp_all add: example_result_def str_def SP_def)
  note inst_short = final_pass_takes_whole_buffer
    [where svc = rt_short_service and sid = "''s1''" and session = rt_short_session
       and ds = "[[0.5, 0.25]]" and tmp_ok = True and whisper = "answers ''hello''" and now = 3
       and evs = example_run and bid = "''s1''" and s = example_result and A = "{''s1''}"]
  note inst_long = final_pass_takes_whole_buffer
    [where svc = rt_long_service and sid = "''s1''" and session = rt_long_session
       and ds = "[replicate 8000 0.5]" and tmp_ok = True and whisper = "heard 8000" and now = 3
       and evs = example_run and bid = "''s1''" and s = example_result and A = "{''s1''}"]
  note inst_full = final_pass_takes_whole_buffer
    [where svc = rt_full_service and sid = "''s1''" and session = rt_full_session
       and ds = "[0.25 # replicate 480000 0.5]" and tmp_ok = True and whisper = "heard 480000"
       and now = 3
       and evs = example_run and bid = "''s1''" and s = example_result and A = "{''s1''}"]
  note inst_basic = final_pass_takes_whole_buffer
    [where svc = rt_short_service and sid = "''s1''" and session = rt_short_session
       and ds = "[[0.5, 0.25]]" and tmp_ok = True and whisper = "answers ''hello''" and now = 9
       and evs = example_run and bid = "''s1''" and s = example_result and A = "{''s1''}"]
  have c1: "snd (rt_manager_stop_recording rt_short_service ''s1'' True (answers ''hello'') 3)
        = Recording_stopped ''s1'' (Some []) 3"
    using inst_short short config(1,2) bufs(1) marked(1) fields by simp
  have c2: "AudioBuffer_read_last_seconds (rt_audio_buffer rt_long_session) (buffer_duration rt_long_service)
              = replicate 8000 0.5"
     and c3: "snd (rt_manager_stop_recording rt_long_service ''s1'' True (heard 8000) 3)
        = Recording_stopped ''s1'' (Some (str ''hello'')) 3"
    using inst_long long config(3,4) bufs(2) marked(2,3) windows(1) heard(1) hello by simp_all
  have c4: "AudioBuffer_read_last_seconds (rt_audio_buffer rt_full_session) (buffer_duration rt_full_service)
              = replicate 480000 0.5"
     and c5: "snd (rt_manager_stop_recording rt_full_service ''s1'' True (heard 480000) 3)
        = Recording_stopped ''s1'' (Some (str ''hello'')) 3"
    using inst_full full config(5,6) bufs(3) marked(4) isfull windows(2) heard(2) hello by simp_all
  have c6: "snd (manager_stop_recording
             \<lparr>audio_service = run BasicRealtimeAudioService_init example_run,
              active_sessions = {''s1''}\<rparr> ''s1'' 9)
        = Recording_stopped ''s1'' (Some (str ''hi there'')) 9"
    using inst_basic example_run_result basic by simp
  from short config(1,2) bufs(1) marked(1) c1 long bufs(2) marked(2,3) c2 c3 full bufs(3) isfull
    c4 c5 example_run_result basic(1) c6
  show ?thesis by (intro conjI)
qed

end
